theory Spec2Isabelle
  imports Complex_Main
begin

section \<open>JavaScript values and the built-ins the server relies on\<close>

text \<open>
  The server under verification is the TypeScript program appended to
  \<^verbatim>\<open>src/public/app.js\<close> (lines 209--886: \<^verbatim>\<open>growattHash\<close>, \<^verbatim>\<open>captureCookies\<close>,
  \<^verbatim>\<open>safeJson\<close>, \<^verbatim>\<open>growattFetch\<close>, \<^verbatim>\<open>login\<close>, \<^verbatim>\<open>ensureSession\<close>,
  \<^verbatim>\<open>withSessionRetry\<close>, \<^verbatim>\<open>discoverDevices\<close>, \<^verbatim>\<open>getStorageData\<close>,
  \<^verbatim>\<open>getPlantDetail\<close> and the \<^verbatim>\<open>/api/data\<close> handler). An older JavaScript copy of
  the same server is embedded in \<^verbatim>\<open>src/solar/Soalr-main/README.md\<close>; it is identical
  except for \<^verbatim>\<open>safeJson\<close>, \<^verbatim>\<open>withSessionRetry\<close> and \<^verbatim>\<open>getStorageData\<close>, whose older
  forms are given at the end of the definitions under the suffix \<open>_legacy\<close>.

  Numbers: a JavaScript number is modelled as \<open>NaN\<close>, an infinity, or an exact rational.
  Rounding to IEEE doubles, overflow and underflow are not modelled. Strings are lists of
  8-bit characters.
\<close>

datatype jsnum = NaN | PosInf | NegInf | Fin rat

datatype jsval =
    JUndefined
  | JNull
  | JBool bool
  | JNum jsnum
  | JStr string
  | JArr "jsval list"
  | JObj "(string \<times> jsval) list"

datatype error = Error string

fun message :: "error \<Rightarrow> string" where
  "message (Error m) = m"

text \<open>\<^verbatim>\<open>a < b\<close> on numbers: false as soon as one side is \<open>NaN\<close>.\<close>

fun num_lt :: "jsnum \<Rightarrow> jsnum \<Rightarrow> bool" where
  "num_lt NaN _ = False"
| "num_lt _ NaN = False"
| "num_lt PosInf _ = False"
| "num_lt _ NegInf = False"
| "num_lt NegInf _ = True"
| "num_lt _ PosInf = True"
| "num_lt (Fin a) (Fin b) = (a < b)"

text \<open>Truthiness, as \<^verbatim>\<open>!v\<close>, \<^verbatim>\<open>a || b\<close> and \<^verbatim>\<open>if (v)\<close> test it.\<close>

fun truthy :: "jsval \<Rightarrow> bool" where
  "truthy JUndefined = False"
| "truthy JNull = False"
| "truthy (JBool b) = b"
| "truthy (JNum n) = (n \<noteq> NaN \<and> n \<noteq> Fin 0)"
| "truthy (JStr s) = (s \<noteq> [])"
| "truthy (JArr _) = True"
| "truthy (JObj _) = True"

definition or_else :: "jsval \<Rightarrow> jsval \<Rightarrow> jsval" where
  \<comment> \<open>\<^verbatim>\<open>a || b\<close>\<close>
  "or_else a b = (if truthy a then a else b)"

definition nullish :: "jsval \<Rightarrow> bool" where
  "nullish v = (v = JUndefined \<or> v = JNull)"

text \<open>
  Property read \<^verbatim>\<open>v.k\<close> on a value that is neither \<^verbatim>\<open>null\<close> nor \<^verbatim>\<open>undefined\<close>. An object
  parsed from JSON keeps the last of several members with one name. Arrays and strings
  have a \<^verbatim>\<open>length\<close>; no other inherited property is read by the server as data.
\<close>

fun getp :: "jsval \<Rightarrow> string \<Rightarrow> jsval" where
  "getp (JObj kvs) k = (case map_of (rev kvs) k of Some v \<Rightarrow> v | None \<Rightarrow> JUndefined)"
| "getp (JArr xs) k = (if k = ''length'' then JNum (Fin (of_nat (length xs))) else JUndefined)"
| "getp (JStr s) k = (if k = ''length'' then JNum (Fin (of_nat (length s))) else JUndefined)"
| "getp _ k = JUndefined"

definition type_error :: "string \<Rightarrow> string \<Rightarrow> error" where
  \<comment> \<open>the error V8 raises for a property read on \<^verbatim>\<open>null\<close> or \<^verbatim>\<open>undefined\<close>\<close>
  "type_error what k =
     Error (''Cannot read properties of '' @ what @ '' (reading '' @ [CHR 0x27] @ k @ [CHR 0x27] @ '')'')"

definition getprop :: "jsval \<Rightarrow> string \<Rightarrow> error + jsval" where
  \<comment> \<open>\<^verbatim>\<open>v.k\<close> on any value: a \<^verbatim>\<open>TypeError\<close> on \<^verbatim>\<open>null\<close> and \<^verbatim>\<open>undefined\<close>\<close>
  "getprop v k =
     (if v = JUndefined then Inl (type_error ''undefined'' k)
      else if v = JNull then Inl (type_error ''null'' k)
      else Inr (getp v k))"

definition opt_getp :: "jsval \<Rightarrow> string \<Rightarrow> jsval" where
  \<comment> \<open>\<^verbatim>\<open>v?.k\<close>\<close>
  "opt_getp v k = (if nullish v then JUndefined else getp v k)"

fun index0 :: "jsval \<Rightarrow> jsval" where
  \<comment> \<open>\<^verbatim>\<open>v[0]\<close> on a value that is neither \<^verbatim>\<open>null\<close> nor \<^verbatim>\<open>undefined\<close>\<close>
  "index0 (JArr xs) = (case xs of [] \<Rightarrow> JUndefined | x # _ \<Rightarrow> x)"
| "index0 (JStr s) = (case s of [] \<Rightarrow> JUndefined | c # _ \<Rightarrow> JStr [c])"
| "index0 (JObj kvs) = getp (JObj kvs) ''0''"
| "index0 _ = JUndefined"

subsection \<open>Strings\<close>

definition is_space :: "char \<Rightarrow> bool" where
  \<comment> \<open>white space and line terminators among the 8-bit characters\<close>
  "is_space c = (of_char c \<in> {9, 10, 11, 12, 13, 32, 160 :: nat})"

definition trim :: "string \<Rightarrow> string" where
  "trim s = rev (dropWhile is_space (rev (dropWhile is_space s)))"

definition starts_with :: "string \<Rightarrow> string \<Rightarrow> bool" where
  \<comment> \<open>\<^verbatim>\<open>s.startsWith(p)\<close>\<close>
  "starts_with s p = (take (length p) s = p)"

fun str_includes :: "string \<Rightarrow> string \<Rightarrow> bool" where
  \<comment> \<open>\<^verbatim>\<open>s.includes(p)\<close>\<close>
  "str_includes [] p = (p = [])"
| "str_includes (c # cs) p = (starts_with (c # cs) p \<or> str_includes cs p)"

definition lastIndexOf :: "string \<Rightarrow> char \<Rightarrow> int" where
  \<comment> \<open>\<^verbatim>\<open>s.lastIndexOf(c)\<close>: \<open>-1\<close> when \<open>c\<close> does not occur\<close>
  "lastIndexOf s c =
     (if c \<in> set s then int (length s) - 1 - int (length (takeWhile (\<lambda>x. x \<noteq> c) (rev s)))
      else - 1)"

fun join_with :: "string \<Rightarrow> string list \<Rightarrow> string" where
  \<comment> \<open>\<^verbatim>\<open>xs.join(sep)\<close>\<close>
  "join_with sep [] = []"
| "join_with sep [x] = x"
| "join_with sep (x # y # ys) = x @ sep @ join_with sep (y # ys)"

subsection \<open>parseFloat\<close>

definition is_digit :: "char \<Rightarrow> bool" where
  "is_digit c = (48 \<le> (of_char c :: nat) \<and> (of_char c :: nat) \<le> 57)"

definition digits_val :: "string \<Rightarrow> nat" where
  "digits_val ds = foldl (\<lambda>a c. 10 * a + (of_char c - 48)) 0 ds"

definition exponent_of :: "string \<Rightarrow> int" where
  \<comment> \<open>the value of an exponent part \<^verbatim>\<open>e[+-]digits\<close> at the head of the text, \<open>0\<close> when
     there is none\<close>
  "exponent_of r =
     (if take 1 r = ''e'' \<or> take 1 r = ''E'' then
        (let r1 = drop 1 r;
             neg = (take 1 r1 = ''-'');
             r2 = (if take 1 r1 = ''-'' \<or> take 1 r1 = ''+'' then drop 1 r1 else r1);
             ds = takeWhile is_digit r2
         in if ds = [] then 0 else if neg then - int (digits_val ds) else int (digits_val ds))
      else 0)"

definition scale10 :: "rat \<Rightarrow> int \<Rightarrow> rat" where
  "scale10 q e = (if 0 \<le> e then q * 10 ^ nat e else q / 10 ^ nat (- e))"

definition parseFloat_str :: "string \<Rightarrow> jsnum" where
  \<comment> \<open>the longest prefix, after leading white space, that is a decimal literal\<close>
  "parseFloat_str s =
     (let t = dropWhile is_space s;
          neg = (take 1 t = ''-'');
          u = (if take 1 t = ''-'' \<or> take 1 t = ''+'' then drop 1 t else t);
          ip = takeWhile is_digit u;
          r1 = dropWhile is_digit u;
          dot = (take 1 r1 = ''.'');
          fp = (if dot then takeWhile is_digit (drop 1 r1) else []);
          r2 = (if dot then dropWhile is_digit (drop 1 r1) else r1);
          q = scale10 (of_nat (digits_val (ip @ fp))) (exponent_of r2 - int (length fp))
      in if starts_with u ''Infinity'' then (if neg then NegInf else PosInf)
         else if ip = [] \<and> fp = [] then NaN
         else Fin (if neg then - q else q))"

text \<open>
  \<^verbatim>\<open>parseFloat(v)\<close> converts \<open>v\<close> to a string first. A number prints as a literal that
  reads back as itself; an array prints as its elements joined by commas, so only its
  first element is read (\<^verbatim>\<open>null\<close> and \<^verbatim>\<open>undefined\<close> elements print as nothing);
  \<^verbatim>\<open>undefined\<close>, \<^verbatim>\<open>null\<close>, booleans and objects print as text that is no number.
\<close>

fun parseFloat :: "jsval \<Rightarrow> jsnum" where
  "parseFloat (JNum n) = n"
| "parseFloat (JStr s) = parseFloat_str s"
| "parseFloat (JArr (x # xs)) = parseFloat x"
| "parseFloat _ = NaN"

section \<open>The credential hasher\<close>

text \<open>
  \<^verbatim>\<open>growattHash\<close> (app.js 274--284). The digest
  \<^verbatim>\<open>crypto.createHash('md5').update(password, 'utf8').digest('hex')\<close> is Node's; it is the
  parameter \<open>md5_hex\<close>. The loop runs over the even indices and rebuilds the string around
  each \<^verbatim>\<open>'0'\<close> it meets.
\<close>

function growattHash_loop :: "nat \<Rightarrow> string \<Rightarrow> string" where
  "growattHash_loop i h =
     (if i < length h
      then growattHash_loop (i + 2)
             (if h ! i = CHR ''0'' then take i h @ ''c'' @ drop (i + 1) h else h)
      else h)"
  by pat_completeness auto
termination
  by (relation "measure (\<lambda>(i, h). length h - i)") auto

declare growattHash_loop.simps [simp del]

definition growattHash :: "(string \<Rightarrow> string) \<Rightarrow> string \<Rightarrow> string" where
  "growattHash md5_hex password = growattHash_loop 0 (md5_hex password)"

section \<open>The numeric coalesce\<close>

text \<open>
  \<^verbatim>\<open>pf\<close> (app.js 691--697), a closure of the \<^verbatim>\<open>/api/data\<close> handler over no variable of
  it: the first candidate whose \<^verbatim>\<open>parseFloat\<close> is neither \<open>NaN\<close> nor zero.
\<close>

fun pf :: "jsval list \<Rightarrow> jsnum" where
  "pf [] = Fin 0"
| "pf (v # vs) = (let n = parseFloat v in if n \<noteq> NaN \<and> n \<noteq> Fin 0 then n else pf vs)"

section \<open>The platform, the upstream and the session\<close>

text \<open>
  Everything the server takes from outside is a field of \<open>world\<close>: the upstream API
  (\<open>net w n ep c\<close> is what the \<open>n\<close>-th HTTP call of the process, to endpoint \<open>ep\<close> with
  Cookie header \<open>c\<close>, produces: a network error or a response), the clock (\<open>clock w n\<close> is
  the \<open>n\<close>-th reading of \<^verbatim>\<open>Date.now()\<close> or \<^verbatim>\<open>new Date()\<close> by the modelled code), the two
  environment variables, and the built-ins of Node that are not modelled here:
  the MD5 digest, \<^verbatim>\<open>JSON.parse\<close> (\<open>None\<close> for a \<^verbatim>\<open>SyntaxError\<close>), \<^verbatim>\<open>JSON.stringify\<close>,
  the conversions of a value to a string and to a number, and \<^verbatim>\<open>toISOString\<close>.
  Nothing is assumed about any of them.

  The URL of a request is kept as its endpoint and the identifiers interpolated into it.
\<close>

datatype endpoint =
    LoginAPI string string
  | DeviceListTwo jsval
  | DeviceListAll jsval
  | StorageInfo jsval
  | EnergyOverview jsval jsval
  | StorageParams jsval
  | PlantDetailAPI jsval string

record response =
  setCookies :: "string list"
  body :: "error + string"
  status :: nat

record world =
  net :: "nat \<Rightarrow> endpoint \<Rightarrow> string option \<Rightarrow> error + response"
  clock :: "nat \<Rightarrow> int"
  GROWATT_USERNAME :: "string option"
  GROWATT_PASSWORD :: "string option"
  md5_hex :: "string \<Rightarrow> string"
  JSON_parse :: "string \<Rightarrow> jsval option"
  JSON_stringify :: "jsval \<Rightarrow> string"
  ToString :: "jsval \<Rightarrow> string"
  ToNumber :: "jsval \<Rightarrow> jsnum"
  toISOString :: "int \<Rightarrow> string"

text \<open>
  The process state: the fields of \<^verbatim>\<open>session\<close> (app.js 256--265), the \<^verbatim>\<open>cookieJar\<close> map
  (in insertion order) and \<^verbatim>\<open>requestCounter\<close>. Three counters are instrumentation and
  are read by no modelled code: \<open>clockReads\<close> numbers the readings of the clock,
  \<open>loginCalls\<close> counts the entries into \<^verbatim>\<open>login\<close>, and \<open>opCalls\<close> is free for an operation
  passed to \<^verbatim>\<open>withSessionRetry\<close> to count its own invocations.
\<close>

record state =
  cookies :: "string option"
  userId :: jsval
  plantId :: jsval
  plantName :: jsval
  deviceSn :: jsval
  lastLogin :: "int option"
  lastData :: "jsval option"
  lastFetch :: int
  cookieJar :: "(string \<times> string) list"
  requestCounter :: nat
  clockReads :: nat
  loginCalls :: nat
  opCalls :: nat

definition init_state :: state where
  "init_state =
     \<lparr>cookies = None, userId = JNull, plantId = JNull, plantName = JNull, deviceSn = JNull,
      lastLogin = None, lastData = None, lastFetch = 0, cookieJar = [], requestCounter = 0,
      clockReads = 0, loginCalls = 0, opCalls = 0\<rparr>"

definition SESSION_TTL :: int where
  "SESSION_TTL = 30 * 60 * 1000"

definition DATA_CACHE_TTL :: int where
  "DATA_CACHE_TTL = 60 * 1000"

text \<open>
  An \<^verbatim>\<open>async\<close> function is a state transformer that ends in a thrown error (\<open>Inl\<close>) or a
  returned value (\<open>Inr\<close>). Requests are served one at a time: the interleaving of two
  requests at an \<^verbatim>\<open>await\<close> is not modelled.
\<close>

type_synonym 'a prog = "state \<Rightarrow> (error + 'a) \<times> state"

definition ret :: "'a \<Rightarrow> 'a prog" where
  "ret x s = (Inr x, s)"

definition throw :: "error \<Rightarrow> 'a prog" where
  "throw e s = (Inl e, s)"

definition bind :: "'a prog \<Rightarrow> ('a \<Rightarrow> 'b prog) \<Rightarrow> 'b prog" where
  "bind m f s = (case m s of (Inl e, s') \<Rightarrow> (Inl e, s') | (Inr x, s') \<Rightarrow> f x s')"

definition lift :: "error + 'a \<Rightarrow> 'a prog" where
  \<comment> \<open>an expression that may throw and touches no state\<close>
  "lift r s = (r, s)"

definition modify :: "(state \<Rightarrow> state) \<Rightarrow> unit prog" where
  \<comment> \<open>an assignment to the session or to the jar\<close>
  "modify u s = (Inr (), u s)"

definition reading :: "(state \<Rightarrow> 'a) \<Rightarrow> 'a prog" where
  \<comment> \<open>a read of the session\<close>
  "reading g s = (Inr (g s), s)"

definition http :: "world \<Rightarrow> endpoint \<Rightarrow> string option \<Rightarrow> response prog" where
  \<comment> \<open>\<^verbatim>\<open>logRequest\<close> numbers the request, \<^verbatim>\<open>fetch\<close> sends it\<close>
  "http w ep cookie s =
     (let reqId = Suc (requestCounter s)
      in (net w reqId ep cookie, s\<lparr>requestCounter := reqId\<rparr>))"

definition Date_now :: "world \<Rightarrow> int prog" where
  "Date_now w s = (Inr (clock w (clockReads s)), s\<lparr>clockReads := Suc (clockReads s)\<rparr>)"

definition str_truthy :: "string option \<Rightarrow> bool" where
  \<comment> \<open>truthiness of a string that may be \<^verbatim>\<open>null\<close> or \<^verbatim>\<open>undefined\<close>\<close>
  "str_truthy x = (case x of None \<Rightarrow> False | Some t \<Rightarrow> t \<noteq> [])"

definition time_truthy :: "int option \<Rightarrow> bool" where
  \<comment> \<open>truthiness of a timestamp that may be \<^verbatim>\<open>null\<close>\<close>
  "time_truthy x = (case x of None \<Rightarrow> False | Some t \<Rightarrow> t \<noteq> 0)"

definition object_keys :: "jsval \<Rightarrow> error + unit" where
  \<comment> \<open>\<^verbatim>\<open>Object.keys(v)\<close>, evaluated for a log line: only whether it throws matters\<close>
  "object_keys v =
     (if nullish v then Inl (Error ''Cannot convert undefined or null to object'') else Inr ())"

section \<open>The cookie jar\<close>

text \<open>\<^verbatim>\<open>captureCookies\<close> (app.js 289--314). \<open>setCookies res\<close> is the list the source names
  \<^verbatim>\<open>setCookies\<close>.\<close>

fun jar_set :: "string \<Rightarrow> string \<Rightarrow> (string \<times> string) list \<Rightarrow> (string \<times> string) list" where
  \<comment> \<open>\<^verbatim>\<open>cookieJar.set(name, value)\<close>: a name already in the map keeps its place\<close>
  "jar_set k v [] = [(k, v)]"
| "jar_set k v ((k', v') # r) = (if k' = k then (k, v) # r else (k', v') # jar_set k v r)"

definition cookie_pair :: "string \<Rightarrow> (string \<times> string) option" where
  \<comment> \<open>the body of the loop: the name and value a raw header sets, if any\<close>
  "cookie_pair raw =
     (let pair = trim (takeWhile (\<lambda>c. c \<noteq> CHR '';'') raw) in
      if pair = [] \<or> CHR ''='' \<notin> set pair then None
      else
        (let name = trim (takeWhile (\<lambda>c. c \<noteq> CHR ''='') pair);
             val = trim (drop 1 (dropWhile (\<lambda>c. c \<noteq> CHR ''='') pair))
         in if name \<noteq> [] then Some (name, val) else None))"

fun capture_loop :: "string list \<Rightarrow> (string \<times> string) list \<Rightarrow> (string \<times> string) list" where
  "capture_loop [] jar = jar"
| "capture_loop (raw # rest) jar =
     capture_loop rest (case cookie_pair raw of None \<Rightarrow> jar | Some (n, v) \<Rightarrow> jar_set n v jar)"

definition jar_header :: "(string \<times> string) list \<Rightarrow> string option" where
  \<comment> \<open>\<^verbatim>\<open>entries.map(([k, v]) => `${k}=${v}`).join('; ') || null\<close>\<close>
  "jar_header jar =
     (let joined = join_with ''; '' (map (\<lambda>(k, v). k @ ''='' @ v) jar)
      in if joined = [] then None else Some joined)"

definition captureCookies :: "response \<Rightarrow> state \<Rightarrow> state" where
  "captureCookies res s =
     (let jar = capture_loop (setCookies res) (cookieJar s)
      in s\<lparr>cookieJar := jar, cookies := jar_header jar\<rparr>)"

section \<open>The upstream client\<close>

text \<open>\<^verbatim>\<open>safeJson\<close> (app.js 317--348). The salvage loop counts its ten rounds down.\<close>

definition endings :: "string list" where
  "endings = [''}'', ''}}'', ''}}}'', ''}}}}'', '']}'', '']}}'']"

fun try_endings :: "world \<Rightarrow> string \<Rightarrow> string list \<Rightarrow> jsval option" where
  "try_endings w current [] = None"
| "try_endings w current (ending # rest) =
     (case JSON_parse w (current @ ending) of
        Some parsed \<Rightarrow> Some parsed
      | None \<Rightarrow> try_endings w current rest)"

fun salvage :: "world \<Rightarrow> nat \<Rightarrow> string \<Rightarrow> jsval option" where
  "salvage w 0 current = None"
| "salvage w (Suc n) current =
     (let commaIdx = lastIndexOf current CHR '','' in
      if commaIdx = - 1 then None
      else
        (let current' = take (nat commaIdx) current in
         case try_endings w current' endings of
           Some parsed \<Rightarrow> Some parsed
         | None \<Rightarrow> salvage w n current'))"

definition safeJson :: "world \<Rightarrow> response \<Rightarrow> string \<Rightarrow> error + jsval" where
  "safeJson w res label =
     (case body res of
        Inl e \<Rightarrow> Inl e
      | Inr txt \<Rightarrow>
          (case JSON_parse w txt of
             Some v \<Rightarrow> Inr v
           | None \<Rightarrow>
               if starts_with (trim txt) ''<''
               then Inl (Error (''session_expired: '' @ label @ '' returned HTML''))
               else
                 (case salvage w 10 txt of
                    Some parsed \<Rightarrow> Inr parsed
                  | None \<Rightarrow> Inr (JObj []))))"

text \<open>\<^verbatim>\<open>growattFetch\<close> (app.js 351--376): the request is numbered by \<^verbatim>\<open>logRequest\<close>, sent
  with the session's cookie header when there is one, and the response's cookies are
  captured.\<close>

definition growattFetch :: "world \<Rightarrow> endpoint \<Rightarrow> response prog" where
  "growattFetch w ep =
     bind (reading cookies) (\<lambda>c.
     bind (http w ep (if str_truthy c then c else None)) (\<lambda>res.
     bind (modify (captureCookies res)) (\<lambda>_.
     ret res)))"

section \<open>The session manager\<close>

definition to_str :: "world \<Rightarrow> jsval \<Rightarrow> string" where
  \<comment> \<open>a value interpolated into a template literal, or passed to \<^verbatim>\<open>String\<close>; how a
     number, an array or an object prints is the platform's\<close>
  "to_str w v =
     (case v of
        JStr t \<Rightarrow> t
      | JUndefined \<Rightarrow> ''undefined''
      | JNull \<Rightarrow> ''null''
      | JBool b \<Rightarrow> (if b then ''true'' else ''false'')
      | _ \<Rightarrow> ToString w v)"

definition map_check :: "string \<Rightarrow> string \<Rightarrow> jsval \<Rightarrow> error + unit" where
  \<comment> \<open>\<^verbatim>\<open>v.map(x => ({ .. x.k .. }))\<close>, evaluated for a log line: it throws when \<open>v\<close> is
     no array, or at the first element that is \<^verbatim>\<open>null\<close>\<close>
  "map_check callee k v =
     (case v of
        JArr xs \<Rightarrow>
          (case List.find nullish xs of
             None \<Rightarrow> Inr ()
           | Some x \<Rightarrow> (case getprop x k of Inl e \<Rightarrow> Inl e | Inr _ \<Rightarrow> Inr ()))
      | _ \<Rightarrow> Inl (Error (callee @ '' is not a function'')))"

text \<open>\<^verbatim>\<open>discoverDevices\<close> (app.js 514--556).\<close>

definition fetch_json :: "world \<Rightarrow> endpoint \<Rightarrow> string \<Rightarrow> jsval prog" where
  \<comment> \<open>\<^verbatim>\<open>await safeJson(await growattFetch(ep), label)\<close>\<close>
  "fetch_json w ep label =
     bind (growattFetch w ep) (\<lambda>res. lift (safeJson w res label))"

definition device_list :: "world \<Rightarrow> endpoint \<Rightarrow> string \<Rightarrow> jsval prog" where
  \<comment> \<open>one listing method: fetch, parse, \<^verbatim>\<open>Object.keys(data)\<close> for the log,
     \<^verbatim>\<open>data.deviceList || []\<close>\<close>
  "device_list w ep label =
     bind (fetch_json w ep label) (\<lambda>data.
     bind (lift (object_keys data)) (\<lambda>_.
     ret (or_else (getp data ''deviceList'') (JArr []))))"

definition gt0 :: "world \<Rightarrow> jsval \<Rightarrow> bool" where
  \<comment> \<open>\<^verbatim>\<open>v > 0\<close>\<close>
  "gt0 w v = (case v of JNum n \<Rightarrow> num_lt (Fin 0) n | _ \<Rightarrow> num_lt (Fin 0) (ToNumber w v))"

definition select_device :: "jsval \<Rightarrow> unit prog" where
  \<comment> \<open>the branch \<^verbatim>\<open>devices.length > 0\<close>: the serial is stored before the log line maps
     over the devices\<close>
  "select_device devices =
     bind (lift (getprop (index0 devices) ''deviceSn'')) (\<lambda>sn.
     bind (modify (\<lambda>s. s\<lparr>deviceSn := or_else sn (or_else (getp (index0 devices) ''alias'')
                                                        (getp (index0 devices) ''sn''))\<rparr>)) (\<lambda>_.
     lift (map_check ''devices.map'' ''deviceSn'' devices)))"

definition discoverDevices :: "world \<Rightarrow> jsval prog" where
  "discoverDevices w =
     bind (reading plantId) (\<lambda>pid.
     bind (device_list w (DeviceListTwo pid) ''DeviceListTwo'') (\<lambda>devices1.
     bind (if getp devices1 ''length'' = JNum (Fin 0)
           then bind (reading plantId) (\<lambda>pid2.
                  device_list w (DeviceListAll pid2) ''DeviceListAll'')
           else ret devices1) (\<lambda>devices.
     bind (if gt0 w (getp devices ''length'') then select_device devices else ret ()) (\<lambda>_.
     ret devices))))"

text \<open>\<^verbatim>\<open>login\<close> (app.js 379--489). \<open>login_validate\<close> is the part between reading the
  body and the first write to the session: it has no effect but the error it may throw.\<close>

definition login_validate :: "world \<Rightarrow> response \<Rightarrow> string \<Rightarrow> error + (jsval \<times> jsval)" where
  "login_validate w res responseText =
     (let nonJson = Error (''Login returned non-JSON (status ''
                            @ ToString w (JNum (Fin (of_nat (status res)))) @ ''): '' @ [CHR 0x22]
                            @ take 120 responseText @ [CHR 0x22])
      in case JSON_parse w responseText of
           None \<Rightarrow> Inl nonJson
         | Some data \<Rightarrow>
             if nullish data then Inl nonJson
             else if \<not> truthy (getp data ''back'') then
               Inl (Error (''Login failed: no '' @ [CHR 0x22] @ ''back'' @ [CHR 0x22] @ '' in response ''
                           @ [CHR 0xE2, CHR 0x80, CHR 0x94]
                           @ '' '' @ take 200 (JSON_stringify w data)))
             else
               (let back = getp data ''back'' in
                if \<not> truthy (getp back ''success'') then
                  Inl (Error (''Login failed: ''
                        @ to_str w (or_else (getp back ''msg'')
                                     (or_else (getp data ''msg'') (JStr (JSON_stringify w data))))))
                else
                  (let user = getp back ''user'';
                       plants = getp back ''data''
                   in case (if nullish plants then Inr ()
                            else map_check ''plants?.map'' ''plantId'' plants) of
                        Inl e \<Rightarrow> Inl e
                      | Inr _ \<Rightarrow>
                          if \<not> truthy plants \<or> getp plants ''length'' = JNum (Fin 0)
                          then Inl (Error ''Login succeeded but no plants found'')
                          else Inr (user, plants))))"

definition login_info :: "jsval \<Rightarrow> state \<Rightarrow> jsval" where
  "login_info user s =
     JObj [(''plantName'', plantName s), (''plantId'', plantId s), (''userId'', userId s),
           (''country'', or_else (getp user ''country'') (JStr ''Unknown'')),
           (''deviceSn'', deviceSn s)]"

definition login :: "world \<Rightarrow> jsval prog" where
  "login w =
     bind (modify (\<lambda>s. s\<lparr>loginCalls := Suc (loginCalls s)\<rparr>)) (\<lambda>_.
     case (GROWATT_USERNAME w, GROWATT_PASSWORD w) of
       (Some username, Some password) \<Rightarrow>
         if username = [] \<or> password = [] then
           throw (Error ''GROWATT_USERNAME and GROWATT_PASSWORD must be set in .env'')
         else
           bind (modify (\<lambda>s. s\<lparr>cookies := None, cookieJar := []\<rparr>)) (\<lambda>_.
           bind (http w (LoginAPI username (growattHash (md5_hex w) password)) None) (\<lambda>res.
           bind (modify (captureCookies res)) (\<lambda>_.
           bind (lift (body res)) (\<lambda>responseText.
           bind (lift (login_validate w res responseText)) (\<lambda>(user, plants).
           bind (lift (getprop user ''id'')) (\<lambda>uid.
           bind (modify (\<lambda>s. s\<lparr>userId := uid,
                                  plantId := getp (index0 plants) ''plantId'',
                                  plantName := getp (index0 plants) ''plantName''\<rparr>)) (\<lambda>_.
           bind (Date_now w) (\<lambda>now.
           bind (modify (\<lambda>s. s\<lparr>lastLogin := Some now\<rparr>)) (\<lambda>_.
           bind (discoverDevices w) (\<lambda>_.
           reading (login_info user)))))))))))
     | _ \<Rightarrow> throw (Error ''GROWATT_USERNAME and GROWATT_PASSWORD must be set in .env''))"

text \<open>\<^verbatim>\<open>ensureSession\<close> (app.js 492--496). The clock is read only when the first two
  tests of the disjunction are false.\<close>

definition ensureSession :: "world \<Rightarrow> unit prog" where
  "ensureSession w =
     bind (reading cookies) (\<lambda>c.
     bind (reading lastLogin) (\<lambda>l.
     if \<not> str_truthy c \<or> \<not> time_truthy l then bind (login w) (\<lambda>_. ret ())
     else
       bind (Date_now w) (\<lambda>now.
       if now - (case l of Some t \<Rightarrow> t | None \<Rightarrow> 0) > SESSION_TTL
       then bind (login w) (\<lambda>_. ret ())
       else ret ())))"

text \<open>\<^verbatim>\<open>withSessionRetry\<close> (app.js 499--511).\<close>

definition retry_trigger :: "error \<Rightarrow> bool" where
  \<comment> \<open>the test of the \<^verbatim>\<open>catch\<close> block\<close>
  "retry_trigger err =
     (message err \<noteq> [] \<and>
      (str_includes (message err) ''non-JSON'' \<or> str_includes (message err) ''session_expired''))"

definition withSessionRetry :: "world \<Rightarrow> 'a prog \<Rightarrow> 'a prog" where
  "withSessionRetry w fn s =
     (case fn s of
        (Inr v, s1) \<Rightarrow> (Inr v, s1)
      | (Inl err, s1) \<Rightarrow>
          if retry_trigger err then
            bind (ensureSession w) (\<lambda>_. fn) (s1\<lparr>lastLogin := None\<rparr>)
          else (Inl err, s1))"

section \<open>The data sources\<close>

text \<open>\<^verbatim>\<open>getStorageData\<close> (app.js 559--611). \<open>guarded_source\<close> is one of its three
  \<^verbatim>\<open>try\<close>/\<^verbatim>\<open>catch\<close> blocks: the variable starts as \<^verbatim>\<open>{}\<close> and is assigned when
  \<^verbatim>\<open>safeJson\<close> returns; an error thrown in the block (by the fetch, by \<^verbatim>\<open>safeJson\<close> or by
  \<^verbatim>\<open>Object.keys\<close> in the log line) is thrown again only when its message contains
  \<^verbatim>\<open>session_expired\<close>.\<close>

definition guarded_source :: "world \<Rightarrow> endpoint \<Rightarrow> string \<Rightarrow> jsval prog" where
  "guarded_source w ep label s =
     (case fetch_json w ep label s of
        (Inl e, s1) \<Rightarrow>
          if str_includes (message e) ''session_expired'' then (Inl e, s1)
          else (Inr (JObj []), s1)
      | (Inr v, s1) \<Rightarrow>
          (case object_keys v of
             Inl e \<Rightarrow>
               if str_includes (message e) ''session_expired'' then (Inl e, s1) else (Inr v, s1)
           | Inr _ \<Rightarrow> (Inr v, s1)))"

definition getStorageData :: "world \<Rightarrow> jsval prog" where
  "getStorageData w =
     bind (reading deviceSn) (\<lambda>sn.
     if \<not> truthy sn then throw (Error ''No device discovered. Try reconnecting.'')
     else
       bind (guarded_source w (StorageInfo sn) ''StorageDetail'') (\<lambda>detailData.
       bind (reading plantId) (\<lambda>pid.
       bind (reading deviceSn) (\<lambda>sn2.
       bind (guarded_source w (EnergyOverview pid sn2) ''EnergyOverview'') (\<lambda>energyData.
       bind (reading deviceSn) (\<lambda>sn3.
       bind (guarded_source w (StorageParams sn3) ''StorageParams'') (\<lambda>paramsData.
       bind (lift (getprop energyData ''obj'')) (\<lambda>obj.
       ret (JObj [(''detail'', detailData),
                  (''energy'', or_else obj energyData),
                  (''params'', paramsData)])))))))))"

text \<open>\<^verbatim>\<open>getPlantDetail\<close> (app.js 614--626).\<close>

definition getPlantDetail :: "world \<Rightarrow> jsval prog" where
  "getPlantDetail w =
     bind (Date_now w) (\<lambda>now.
     bind (reading plantId) (\<lambda>pid.
     bind (fetch_json w
             (PlantDetailAPI pid (takeWhile (\<lambda>c. c \<noteq> CHR ''T'') (toISOString w now)))
             ''PlantDetail'') (\<lambda>raw.
     bind (lift (object_keys raw)) (\<lambda>_.
     ret (or_else (getp raw ''back'') (JObj []))))))"

section \<open>The \<^verbatim>\<open>/api/data\<close> handler\<close>

subsection \<open>parseInt\<close>

definition is_hex_digit :: "char \<Rightarrow> bool" where
  "is_hex_digit c =
     (is_digit c \<or> (65 \<le> (of_char c :: nat) \<and> (of_char c :: nat) \<le> 70)
                \<or> (97 \<le> (of_char c :: nat) \<and> (of_char c :: nat) \<le> 102))"

definition hex_val :: "char \<Rightarrow> nat" where
  "hex_val c =
     (let n = of_char c :: nat in if n \<le> 57 then n - 48 else if n \<le> 70 then n - 55 else n - 87)"

definition parseInt_str :: "string \<Rightarrow> jsnum" where
  \<comment> \<open>\<^verbatim>\<open>parseInt(s)\<close> with no radix: decimal, or hexadecimal after \<^verbatim>\<open>0x\<close>\<close>
  "parseInt_str s =
     (let t = dropWhile is_space s;
          neg = (take 1 t = ''-'');
          u = (if take 1 t = ''-'' \<or> take 1 t = ''+'' then drop 1 t else t);
          hex = (take 2 u = ''0x'' \<or> take 2 u = ''0X'');
          ds = (if hex then takeWhile is_hex_digit (drop 2 u) else takeWhile is_digit u);
          n = (if hex then foldl (\<lambda>a c. 16 * a + hex_val c) 0 ds else digits_val ds)
      in if ds = [] then NaN else Fin (if neg then - of_nat n else of_nat n))"

definition parseInt :: "world \<Rightarrow> jsval \<Rightarrow> jsnum" where
  "parseInt w v = parseInt_str (to_str w v)"

definition num_or :: "jsnum \<Rightarrow> jsnum \<Rightarrow> jsnum" where
  \<comment> \<open>\<^verbatim>\<open>a || b\<close> on numbers\<close>
  "num_or a b = (if a \<noteq> NaN \<and> a \<noteq> Fin 0 then a else b)"

subsection \<open>The snapshot\<close>

text \<open>
  The object literal \<^verbatim>\<open>dashData\<close> (app.js 683--778), with the bindings \<^verbatim>\<open>sd\<close>,
  \<^verbatim>\<open>energy\<close>, \<^verbatim>\<open>paramsRoot\<close>, \<^verbatim>\<open>bean\<close> and \<^verbatim>\<open>storageBean\<close> before it. \<open>now\<close> is the
  reading of the clock by \<^verbatim>\<open>new Date()\<close> for the timestamp.
\<close>

definition sd_of :: "jsval \<Rightarrow> jsval" where
  \<comment> \<open>\<^verbatim>\<open>storageRaw.detail?.obj || storageRaw.detail || {}\<close>\<close>
  "sd_of storageRaw =
     or_else (opt_getp (getp storageRaw ''detail'') ''obj'')
       (or_else (getp storageRaw ''detail'') (JObj []))"

definition energy_of :: "jsval \<Rightarrow> jsval" where
  \<comment> \<open>\<^verbatim>\<open>storageRaw.energy || {}\<close>\<close>
  "energy_of storageRaw = or_else (getp storageRaw ''energy'') (JObj [])"

definition paramsRoot_of :: "jsval \<Rightarrow> jsval" where
  \<comment> \<open>\<^verbatim>\<open>storageRaw.params?.obj || storageRaw.params || {}\<close>\<close>
  "paramsRoot_of storageRaw =
     or_else (opt_getp (getp storageRaw ''params'') ''obj'')
       (or_else (getp storageRaw ''params'') (JObj []))"

definition bean_of :: "jsval \<Rightarrow> jsval" where
  \<comment> \<open>\<^verbatim>\<open>paramsRoot.storageDetailBean || {}\<close>\<close>
  "bean_of storageRaw = or_else (getp (paramsRoot_of storageRaw) ''storageDetailBean'') (JObj [])"

definition storageBean_of :: "jsval \<Rightarrow> jsval" where
  \<comment> \<open>\<^verbatim>\<open>paramsRoot.storageBean || {}\<close>\<close>
  "storageBean_of storageRaw = or_else (getp (paramsRoot_of storageRaw) ''storageBean'') (JObj [])"

definition plant_section :: "state \<Rightarrow> jsval \<Rightarrow> jsval \<Rightarrow> jsval \<Rightarrow> jsval" where
  "plant_section s sd energy bean =
     JObj [(''name'', plantName s),
           (''id'', plantId s),
           (''currentPower'', JNum (pf [getp sd ''activePower'', getp sd ''outPutPower'',
                                         getp bean ''outPutPower''])),
           (''todayEnergy'', JNum (pf [getp sd ''epvToday'', getp energy ''epvToday''])),
           (''monthEnergy'', JNum (Fin 0)),
           (''totalEnergy'', JNum (pf [getp sd ''epvTotal'', getp energy ''epvTotal'']))]"

definition pv_section :: "jsval \<Rightarrow> jsval \<Rightarrow> jsval \<Rightarrow> jsval" where
  "pv_section sd energy bean =
     JObj [(''power'', JNum (pf [getp sd ''pCharge1'', getp bean ''ppv''])),
           (''powerStr2'', JNum (pf [getp sd ''pCharge2'', getp bean ''ppv2''])),
           (''voltage'', JNum (pf [getp sd ''vpv1'', getp bean ''vpv''])),
           (''current'', JNum (pf [getp sd ''iChargePV1'', getp bean ''iChargePV1''])),
           (''todayEnergy'', JNum (pf [getp sd ''epvToday'', getp energy ''epvToday''])),
           (''totalEnergy'', JNum (pf [getp sd ''epvTotal'', getp energy ''epvTotal'']))]"

definition battery_section :: "jsval \<Rightarrow> jsval \<Rightarrow> jsval \<Rightarrow> jsval" where
  "battery_section sd energy bean =
     JObj [(''soc'', JNum (pf [getp sd ''capacity'', getp bean ''capacity''])),
           (''voltage'', JNum (pf [getp sd ''vbat'', getp bean ''vBat''])),
           (''chargePower'', JNum (pf [getp sd ''pCharge1'', getp bean ''pCharge''])),
           (''dischargePower'', JNum (pf [getp bean ''pDischarge'', getp bean ''pBat''])),
           (''dischargeCurrent'', JNum (pf [getp bean ''dischgCurr''])),
           (''chargeToday'', JNum (pf [getp sd ''eBatChargeToday'', getp energy ''eChargeToday''])),
           (''dischargeToday'',
              JNum (pf [getp sd ''eBatDisChargeToday'', getp energy ''eDischargeToday''])),
           (''temperature'', JNum (pf [getp bean ''batTemp'', getp bean ''bmsTemperature'']))]"

definition load_section :: "jsval \<Rightarrow> jsval \<Rightarrow> jsval \<Rightarrow> jsval" where
  "load_section sd energy bean =
     JObj [(''power'', JNum (pf [getp sd ''outPutPower'', getp bean ''outPutPower'',
                                  getp bean ''sysOut''])),
           (''current'', JNum (pf [getp bean ''outPutCurrent''])),
           (''voltage'', JNum (pf [getp sd ''outPutVolt'', getp bean ''outPutVolt''])),
           (''frequency'', JNum (pf [getp sd ''freqOutPut'', getp bean ''freqOutPut''])),
           (''todayEnergy'', JNum (pf [getp energy ''useEnergyToday'', getp energy ''eToUserToday''])),
           (''loadPercent'', JNum (pf [getp sd ''loadPercent'', getp bean ''loadPercent'']))]"

definition isOffGrid :: "jsval \<Rightarrow> jsval \<Rightarrow> bool" where
  \<comment> \<open>\<^verbatim>\<open>parseFloat(bean.vac) < 50 && parseFloat(sd.vGrid) > 0\<close>\<close>
  "isOffGrid sd bean =
     (num_lt (parseFloat (getp bean ''vac'')) (Fin 50) \<and> num_lt (Fin 0) (parseFloat (getp sd ''vGrid'')))"

definition grid_section :: "jsval \<Rightarrow> jsval \<Rightarrow> jsval \<Rightarrow> jsval" where
  "grid_section sd energy bean =
     JObj [(''power'', JNum (pf [getp bean ''pAcInPut'', getp sd ''pacToGrid''])),
           (''voltage'', JNum (pf [getp sd ''vGrid'', getp bean ''vGrid''])),
           (''frequency'', JNum (pf [getp sd ''freqGrid'', getp bean ''freqGrid''])),
           (''importToday'', JNum (pf [getp energy ''eToUserToday''])),
           (''exportToday'', JNum (pf [getp energy ''eToGridToday''])),
           (''status'', JStr (if isOffGrid sd bean then ''off-grid'' else ''connected''))]"

definition inverter_section :: "world \<Rightarrow> state \<Rightarrow> jsval \<Rightarrow> jsval \<Rightarrow> jsval \<Rightarrow> jsval \<Rightarrow> jsval" where
  "inverter_section w s sd bean paramsRoot storageBean =
     JObj [(''status'',
              or_else (getp bean ''SPF5000StatusText'')
                (or_else (getp bean ''statusText'')
                   (JStr (to_str w (or_else (getp bean ''status'')
                                      (or_else (getp sd ''status'') (JStr []))))))),
           (''statusCode'',
              JNum (num_or (parseInt w (getp bean ''status''))
                      (num_or (parseInt w (getp sd ''status'')) (Fin 0)))),
           (''temperature'', JNum (pf [getp bean ''invTemperature''])),
           (''dcDcTemperature'', JNum (pf [getp bean ''dcDcTemperature''])),
           (''model'',
              or_else (getp paramsRoot ''storageType'')
                (or_else (getp storageBean ''modelText'') (JStr ''SPF 5000ES''))),
           (''serial'', deviceSn s),
           (''alias'', or_else (getp storageBean ''alias'')
                         (or_else (getp storageBean ''treeName'') (JStr []))),
           (''firmware'', or_else (getp storageBean ''fwVersion'') (JStr []))]"

definition energy_section :: "jsval \<Rightarrow> jsval \<Rightarrow> jsval \<Rightarrow> jsval" where
  "energy_section sd energy bean =
     JObj [(''pvToday'', JNum (pf [getp sd ''epvToday'', getp energy ''epvToday''])),
           (''pvTotal'', JNum (pf [getp sd ''epvTotal'', getp energy ''epvTotal''])),
           (''consumptionToday'', JNum (pf [getp energy ''useEnergyToday''])),
           (''consumptionTotal'', JNum (pf [getp energy ''useEnergyTotal''])),
           (''gridImportToday'', JNum (pf [getp energy ''eToUserToday''])),
           (''gridImportTotal'', JNum (pf [getp energy ''eToUserTotal''])),
           (''gridExportToday'', JNum (pf [getp energy ''eToGridToday''])),
           (''gridExportTotal'', JNum (pf [getp energy ''eToGridTotal''])),
           (''batteryChargeToday'', JNum (pf [getp energy ''eChargeToday''])),
           (''batteryDischargeToday'', JNum (pf [getp energy ''eDischargeToday''])),
           (''acChargeToday'', JNum (pf [getp bean ''eacChargeToday''])),
           (''acDischargeToday'', JNum (pf [getp bean ''eacDisChargeToday'']))]"

definition dashData :: "world \<Rightarrow> state \<Rightarrow> int \<Rightarrow> jsval \<Rightarrow> jsval \<Rightarrow> jsval" where
  "dashData w s now storageRaw plantDetail =
     (let sd = sd_of storageRaw;
          energy = energy_of storageRaw;
          paramsRoot = paramsRoot_of storageRaw;
          bean = bean_of storageRaw;
          storageBean = storageBean_of storageRaw
      in JObj [(''timestamp'', JStr (toISOString w now)),
               (''plant'', plant_section s sd energy bean),
               (''pv'', pv_section sd energy bean),
               (''battery'', battery_section sd energy bean),
               (''load'', load_section sd energy bean),
               (''grid'', grid_section sd energy bean),
               (''inverter'', inverter_section w s sd bean paramsRoot storageBean),
               (''energy'', energy_section sd energy bean),
               (''_raw'', JObj [(''storageDetail'', sd),
                                (''energyOverview'', energy),
                                (''storageDetailBean'', bean),
                                (''storageBean'', storageBean),
                                (''plantDetail'', plantDetail)])])"

subsection \<open>The handler\<close>

text \<open>
  The handler (app.js 649--793). \<open>caught m h\<close> is
  \<^verbatim>\<open>try { x = await m } catch (e) { x = h(e) }\<close>; \<open>spread\<close> is \<^verbatim>\<open>...obj\<close> inside an object
  literal. The handler answers with the object it passes to \<^verbatim>\<open>res.json\<close>.
\<close>

definition caught :: "'a prog \<Rightarrow> (error \<Rightarrow> 'a) \<Rightarrow> 'a prog" where
  "caught m h s = (case m s of (Inl e, s') \<Rightarrow> (Inr (h e), s') | (Inr x, s') \<Rightarrow> (Inr x, s'))"

fun spread :: "jsval \<Rightarrow> (string \<times> jsval) list" where
  "spread (JObj kvs) = kvs"
| "spread _ = []"

definition cache_fresh :: "world \<Rightarrow> bool prog" where
  \<comment> \<open>\<^verbatim>\<open>session.lastData && (Date.now() - session.lastFetch < DATA_CACHE_TTL)\<close>\<close>
  "cache_fresh w =
     bind (reading lastData) (\<lambda>d.
     case d of
       None \<Rightarrow> ret False
     | Some v \<Rightarrow>
         if \<not> truthy v then ret False
         else
           bind (Date_now w) (\<lambda>now.
           bind (reading lastFetch) (\<lambda>fetched.
           ret (now - fetched < DATA_CACHE_TTL))))"

definition storage_fallback :: "error \<Rightarrow> jsval" where
  "storage_fallback e =
     JObj [(''detail'', JObj []), (''energy'', JObj []), (''params'', JObj []),
           (''error'', JStr (message e))]"

definition plant_fallback :: "error \<Rightarrow> jsval" where
  "plant_fallback e = JObj [(''error'', JStr (message e))]"

definition data_pipeline :: "world \<Rightarrow> jsval prog" where
  \<comment> \<open>the \<^verbatim>\<open>try\<close> block\<close>
  "data_pipeline w =
     bind (cache_fresh w) (\<lambda>fresh.
     if fresh then
       bind (Date_now w) (\<lambda>logged_age.
       bind (reading lastData) (\<lambda>d.
       ret (JObj ((''success'', JBool True) # (''cached'', JBool True)
                  # (case d of Some v \<Rightarrow> spread v | None \<Rightarrow> [])))))
     else
       bind (ensureSession w) (\<lambda>_.
       bind (caught (withSessionRetry w (getStorageData w)) storage_fallback) (\<lambda>storageRaw.
       bind (caught (withSessionRetry w (getPlantDetail w)) plant_fallback) (\<lambda>plantDetail.
       bind (Date_now w) (\<lambda>now.
       bind (reading (\<lambda>s. dashData w s now storageRaw plantDetail)) (\<lambda>dash.
       bind (Date_now w) (\<lambda>fetched.
       bind (modify (\<lambda>s. s\<lparr>lastData := Some dash, lastFetch := fetched\<rparr>)) (\<lambda>_.
       ret (JObj ((''success'', JBool True) # (''cached'', JBool False) # spread dash))))))))))"

definition failure :: "error \<Rightarrow> jsval" where
  \<comment> \<open>\<^verbatim>\<open>{ success: false, error: err.message }\<close>\<close>
  "failure err = JObj [(''success'', JBool False), (''error'', JStr (message err))]"

definition api_data :: "world \<Rightarrow> state \<Rightarrow> jsval \<times> state" where
  "api_data w s =
     (case data_pipeline w s of
        (Inr r, s') \<Rightarrow> (r, s')
      | (Inl err, s') \<Rightarrow>
          (failure err,
           if str_includes (message err) ''Login'' \<or> str_includes (message err) ''session''
           then s'\<lparr>lastLogin := None\<rparr> else s'))"

text \<open>The \<^verbatim>\<open>/api/connect\<close> handler (app.js 635--646).\<close>

definition api_connect :: "world \<Rightarrow> state \<Rightarrow> jsval \<times> state" where
  "api_connect w s =
     (case login w s of
        (Inr info, s') \<Rightarrow>
          (JObj ((''success'', JBool True) # (''method'', JStr ''classic'') # spread info), s')
      | (Inl err, s') \<Rightarrow> (failure err, s'))"

text \<open>
  The states the process can be in after any number of requests to the two handlers,
  each against any world. (\<^verbatim>\<open>/api/status\<close> changes nothing; the two diagnostic handlers
  are left out.)
\<close>

inductive reachable :: "state \<Rightarrow> bool" where
  start: "reachable init_state"
| connect: "reachable s \<Longrightarrow> reachable (snd (api_connect w s))"
| data: "reachable s \<Longrightarrow> reachable (snd (api_data w s))"

section \<open>The older server\<close>

text \<open>
  The JavaScript copy of the server in \<^verbatim>\<open>src/solar/Soalr-main/README.md\<close> differs from
  the one above in three functions. Its \<^verbatim>\<open>safeJson\<close> (README.md 249--257) has no salvage:
  every body that does not parse throws. Its \<^verbatim>\<open>withSessionRetry\<close> (README.md 408--420)
  retries on \<^verbatim>\<open>non-JSON\<close> only. Its \<^verbatim>\<open>getStorageData\<close> (README.md 468--513) has no
  \<^verbatim>\<open>try\<close> around the three sources.
\<close>

definition safeJson_legacy :: "world \<Rightarrow> response \<Rightarrow> string \<Rightarrow> error + jsval" where
  "safeJson_legacy w res label =
     (case body res of
        Inl e \<Rightarrow> Inl e
      | Inr txt \<Rightarrow>
          (case JSON_parse w txt of
             Some v \<Rightarrow> Inr v
           | None \<Rightarrow>
               Inl (Error (label @ '' returned non-JSON: '' @ [CHR 0x22] @ take 80 txt @ [CHR 0x22]))))"

definition retry_trigger_legacy :: "error \<Rightarrow> bool" where
  "retry_trigger_legacy err = (message err \<noteq> [] \<and> str_includes (message err) ''non-JSON'')"

definition source_legacy :: "world \<Rightarrow> endpoint \<Rightarrow> string \<Rightarrow> jsval prog" where
  \<comment> \<open>fetch, parse, \<^verbatim>\<open>Object.keys\<close> for the log line: nothing is caught\<close>
  "source_legacy w ep label =
     bind (growattFetch w ep) (\<lambda>res.
     bind (lift (safeJson_legacy w res label)) (\<lambda>v.
     bind (lift (object_keys v)) (\<lambda>_. ret v)))"

definition getStorageData_legacy :: "world \<Rightarrow> jsval prog" where
  "getStorageData_legacy w =
     bind (reading deviceSn) (\<lambda>sn.
     if \<not> truthy sn then throw (Error ''No device discovered. Try reconnecting.'')
     else
       bind (source_legacy w (StorageInfo sn) ''StorageDetail'') (\<lambda>detailData.
       bind (reading plantId) (\<lambda>pid.
       bind (reading deviceSn) (\<lambda>sn2.
       bind (source_legacy w (EnergyOverview pid sn2) ''EnergyOverview'') (\<lambda>energyData.
       bind (reading deviceSn) (\<lambda>sn3.
       bind (source_legacy w (StorageParams sn3) ''StorageParams'') (\<lambda>paramsData.
       ret (JObj [(''detail'', detailData),
                  (''energy'', or_else (getp energyData ''obj'') energyData),
                  (''params'', paramsData)]))))))))"

section \<open>Vocabulary of the properties\<close>

text \<open>
  The salvage as the specification words it: the texts left by one to ten truncations at
  the last comma, each tried with the six endings in order; the first text that parses
  gives the result.
\<close>

fun truncations :: "nat \<Rightarrow> string \<Rightarrow> string list" where
  "truncations 0 t = []"
| "truncations (Suc n) t =
     (if CHR '','' \<in> set t
      then take (nat (lastIndexOf t CHR '','')) t
             # truncations n (take (nat (lastIndexOf t CHR '','')) t)
      else [])"

definition salvage_candidates :: "string \<Rightarrow> string list" where
  "salvage_candidates t = concat (map (\<lambda>current. map (\<lambda>e. current @ e) endings) (truncations 10 t))"

fun first_parsed :: "world \<Rightarrow> string list \<Rightarrow> jsval option" where
  "first_parsed w [] = None"
| "first_parsed w (c # cs) =
     (case JSON_parse w c of Some v \<Rightarrow> Some v | None \<Rightarrow> first_parsed w cs)"


text \<open>A field of a snapshot, and the numeric fields of the snapshot by section.\<close>

definition field :: "jsval \<Rightarrow> string \<Rightarrow> string \<Rightarrow> jsval" where
  "field d sec k = getp (getp d sec) k"

definition numeric_fields :: "(string \<times> string) list" where
  "numeric_fields =
     map (Pair ''plant'') [''currentPower'', ''todayEnergy'', ''monthEnergy'', ''totalEnergy''] @
     map (Pair ''pv'') [''power'', ''powerStr2'', ''voltage'', ''current'', ''todayEnergy'',
                        ''totalEnergy''] @
     map (Pair ''battery'') [''soc'', ''voltage'', ''chargePower'', ''dischargePower'',
                             ''dischargeCurrent'', ''chargeToday'', ''dischargeToday'',
                             ''temperature''] @
     map (Pair ''load'') [''power'', ''current'', ''voltage'', ''frequency'', ''todayEnergy'',
                          ''loadPercent''] @
     map (Pair ''grid'') [''power'', ''voltage'', ''frequency'', ''importToday'', ''exportToday''] @
     map (Pair ''inverter'') [''statusCode'', ''temperature'', ''dcDcTemperature''] @
     map (Pair ''energy'') [''pvToday'', ''pvTotal'', ''consumptionToday'', ''consumptionTotal'',
                            ''gridImportToday'', ''gridImportTotal'', ''gridExportToday'',
                            ''gridExportTotal'', ''batteryChargeToday'', ''batteryDischargeToday'',
                            ''acChargeToday'', ''acDischargeToday'']"


text \<open>The condition under which \<^verbatim>\<open>ensureSession\<close> logs in, as its \<^verbatim>\<open>if\<close> tests it.\<close>

definition needs_login :: "world \<Rightarrow> state \<Rightarrow> bool" where
  "needs_login w s =
     (\<not> str_truthy (cookies s) \<or> \<not> time_truthy (lastLogin s) \<or>
      (\<exists>t. lastLogin s = Some t \<and> clock w (clockReads s) - t > SESSION_TTL))"

text \<open>
  The cache gate as the specification words it: a snapshot exists and its age is under the
  freshness window. \<open>after_check s\<close> is the state after the handler's test: the clock has
  been read if a snapshot exists.
\<close>

definition cache_hit :: "world \<Rightarrow> state \<Rightarrow> bool" where
  "cache_hit w s =
     (case lastData s of
        None \<Rightarrow> False
      | Some d \<Rightarrow> truthy d \<and> clock w (clockReads s) - lastFetch s < DATA_CACHE_TTL)"

definition after_check :: "state \<Rightarrow> state" where
  "after_check s =
     (case lastData s of
        None \<Rightarrow> s
      | Some d \<Rightarrow> if truthy d then s\<lparr>clockReads := Suc (clockReads s)\<rparr> else s)"

text \<open>\<open>never_throws m\<close>: \<open>m\<close> returns a value from every state.\<close>

definition never_throws :: "'a prog \<Rightarrow> bool" where
  "never_throws m = (\<forall>s. \<exists>x s'. m s = (Inr x, s'))"

text \<open>\<open>keeps f m\<close>: running \<open>m\<close> never changes the component \<open>f\<close> of the state.\<close>

definition keeps :: "(state \<Rightarrow> 'b) \<Rightarrow> 'a prog \<Rightarrow> bool" where
  "keeps f m = (\<forall>s. f (snd (m s)) = f s)"

definition cache_part :: "state \<Rightarrow> jsval option \<times> int \<times> nat" where
  \<comment> \<open>the cached snapshot with its timestamp, and the counter of operations\<close>
  "cache_part s = (lastData s, lastFetch s, opCalls s)"

section \<open>A concrete platform for the examples\<close>

text \<open>
  The examples run the server against a platform whose \<^verbatim>\<open>JSON.parse\<close> is the parser below:
  JSON over 8-bit text, without \<^verbatim>\<open>\u\<close> escapes. Nested values are parsed with a bound
  on the nesting depth that the length of the text always meets.
\<close>

definition is_json_ws :: "char \<Rightarrow> bool" where
  "is_json_ws c = (of_char c \<in> {9, 10, 13, 32 :: nat})"

definition unescape :: "char \<Rightarrow> char option" where
  "unescape e =
     (if e = CHR 0x22 \<or> e = CHR 0x5C \<or> e = CHR ''/'' then Some e
      else if e = CHR ''b'' then Some (CHR 0x08)
      else if e = CHR ''f'' then Some (CHR 0x0C)
      else if e = CHR ''n'' then Some (CHR 0x0A)
      else if e = CHR ''r'' then Some (CHR 0x0D)
      else if e = CHR ''t'' then Some (CHR 0x09)
      else None)"

fun parse_chars :: "string \<Rightarrow> string \<Rightarrow> (string \<times> string) option" where
  "parse_chars [] acc = None"
| "parse_chars [c] acc = (if c = CHR 0x22 then Some (rev acc, []) else None)"
| "parse_chars (c # e # r) acc =
     (if c = CHR 0x22 then Some (rev acc, e # r)
      else if c = CHR 0x5C then
        (case unescape e of None \<Rightarrow> None | Some x \<Rightarrow> parse_chars r (x # acc))
      else if (of_char c :: nat) < 32 then None
      else parse_chars (e # r) (c # acc))"

definition parse_number :: "string \<Rightarrow> (jsnum \<times> string) option" where
  "parse_number s =
     (let neg = (take 1 s = ''-'');
          u = (if neg then drop 1 s else s);
          ip = takeWhile is_digit u;
          r1 = dropWhile is_digit u;
          dot = (take 1 r1 = ''.'');
          fp = (if dot then takeWhile is_digit (drop 1 r1) else []);
          r2 = (if dot then dropWhile is_digit (drop 1 r1) else r1);
          ex = (take 1 r2 = ''e'' \<or> take 1 r2 = ''E'');
          r3 = (if ex then drop 1 r2 else r2);
          r4 = (if ex \<and> (take 1 r3 = ''-'' \<or> take 1 r3 = ''+'') then drop 1 r3 else r3);
          ed = (if ex then takeWhile is_digit r4 else []);
          r5 = (if ex then dropWhile is_digit r4 else r2);
          q = scale10 (of_nat (digits_val (ip @ fp))) (exponent_of r2 - int (length fp))
      in if ip = [] \<or> (1 < length ip \<and> take 1 ip = ''0'') \<or> (dot \<and> fp = []) \<or> (ex \<and> ed = [])
         then None
         else Some (Fin (if neg then - q else q), r5))"

fun parse_elements ::
  "(string \<Rightarrow> (jsval \<times> string) option) \<Rightarrow> nat \<Rightarrow> string \<Rightarrow> jsval list \<Rightarrow> (jsval \<times> string) option" where
  "parse_elements pv 0 s acc = None"
| "parse_elements pv (Suc n) s acc =
     (case pv s of
        None \<Rightarrow> None
      | Some (v, r) \<Rightarrow>
          (let r' = dropWhile is_json_ws r in
           if starts_with r' '','' then parse_elements pv n (drop 1 r') (v # acc)
           else if starts_with r' '']'' then Some (JArr (rev (v # acc)), drop 1 r')
           else None))"

definition parse_member ::
  "(string \<Rightarrow> (jsval \<times> string) option) \<Rightarrow> string \<Rightarrow> ((string \<times> jsval) \<times> string) option" where
  "parse_member pv s =
     (let t = dropWhile is_json_ws s in
      if \<not> starts_with t [CHR 0x22] then None
      else
        (case parse_chars (drop 1 t) [] of
           None \<Rightarrow> None
         | Some (k, r) \<Rightarrow>
             (let r1 = dropWhile is_json_ws r in
              if \<not> starts_with r1 '':'' then None
              else
                (case pv (drop 1 r1) of
                   None \<Rightarrow> None
                 | Some (v, r2) \<Rightarrow> Some ((k, v), r2)))))"

fun parse_members ::
  "(string \<Rightarrow> (jsval \<times> string) option) \<Rightarrow> nat \<Rightarrow> string \<Rightarrow> (string \<times> jsval) list
     \<Rightarrow> (jsval \<times> string) option" where
  "parse_members pv 0 s acc = None"
| "parse_members pv (Suc n) s acc =
     (case parse_member pv s of
        None \<Rightarrow> None
      | Some (kv, r) \<Rightarrow>
          (let r' = dropWhile is_json_ws r in
           if starts_with r' '','' then parse_members pv n (drop 1 r') (kv # acc)
           else if starts_with r' ''}'' then Some (JObj (rev (kv # acc)), drop 1 r')
           else None))"

definition value_step :: "(string \<Rightarrow> (jsval \<times> string) option) \<Rightarrow> string \<Rightarrow> (jsval \<times> string) option" where
  "value_step pv s =
     (let t = dropWhile is_json_ws s in
      if starts_with t ''null'' then Some (JNull, drop 4 t)
      else if starts_with t ''true'' then Some (JBool True, drop 4 t)
      else if starts_with t ''false'' then Some (JBool False, drop 5 t)
      else if starts_with t [CHR 0x22] then
        (case parse_chars (drop 1 t) [] of
           None \<Rightarrow> None
         | Some (str, r) \<Rightarrow> Some (JStr str, r))
      else if starts_with t ''['' then
        (let r = dropWhile is_json_ws (drop 1 t) in
         if starts_with r '']'' then Some (JArr [], drop 1 r)
         else parse_elements pv (length r) r [])
      else if starts_with t ''{'' then
        (let r = dropWhile is_json_ws (drop 1 t) in
         if starts_with r ''}'' then Some (JObj [], drop 1 r)
         else parse_members pv (length r) r [])
      else
        (case parse_number t of
           None \<Rightarrow> None
         | Some (x, r) \<Rightarrow> Some (JNum x, r)))"

primrec parse_value :: "nat \<Rightarrow> string \<Rightarrow> (jsval \<times> string) option" where
  "parse_value 0 = (\<lambda>s. None)"
| "parse_value (Suc n) = value_step (parse_value n)"

definition json_parse :: "string \<Rightarrow> jsval option" where
  "json_parse s =
     (case parse_value (Suc (length s)) s of
        None \<Rightarrow> None
      | Some (v, r) \<Rightarrow> if dropWhile is_json_ws r = [] then Some v else None)"


text \<open>The example platform prints a natural number in decimal.\<close>

fun decimal :: "nat \<Rightarrow> string" where
  "decimal n =
     (if n < 10 then [char_of (48 + n)] else decimal (n div 10) @ [char_of (48 + n mod 10)])"

declare decimal.simps [simp del]

definition print_example :: "jsval \<Rightarrow> string" where
  "print_example v =
     (case v of
        JNum (Fin q) \<Rightarrow> if 0 \<le> q \<and> of_int (floor q) = q then decimal (nat (floor q)) else []
      | _ \<Rightarrow> [])"

text \<open>
  The rest of the example platform is tabulated for the inputs the examples use: the
  digest of the password \<^verbatim>\<open>a\<close>, and the printed form of two instants. No example prints
  an array, an object or a number that is not a natural number, converts a value that is
  no number to a number, or calls \<^verbatim>\<open>JSON.stringify\<close>.
\<close>

definition md5_example :: "string \<Rightarrow> string" where
  "md5_example p = (if p = ''a'' then ''0cc175b9c0f1b6a831c399e269772661'' else [])"

definition iso_example :: "int \<Rightarrow> string" where
  "iso_example t =
     (if t = 1000000000000 then ''2001-09-09T01:46:40.000Z''
      else if t = 1000000061000 then ''2001-09-09T01:47:41.000Z''
      else [])"

definition example_world ::
  "(nat \<Rightarrow> endpoint \<Rightarrow> string option \<Rightarrow> error + response) \<Rightarrow> (nat \<Rightarrow> int) \<Rightarrow> world" where
  "example_world upstream clk =
     \<lparr>net = upstream, clock = clk,
      GROWATT_USERNAME = Some ''user'', GROWATT_PASSWORD = Some ''a'',
      md5_hex = md5_example, JSON_parse = json_parse, JSON_stringify = (\<lambda>_. []),
      ToString = print_example, ToNumber = (\<lambda>_. NaN), toISOString = iso_example\<rparr>"

definition ok_response :: "string list \<Rightarrow> string \<Rightarrow> response" where
  "ok_response cs txt = \<lparr>setCookies = cs, body = Inr txt, status = 200\<rparr>"

definition jq :: "string \<Rightarrow> string" where
  \<comment> \<open>a text between double quotes\<close>
  "jq t = [CHR 0x22] @ t @ [CHR 0x22]"

text \<open>
  An upstream that answers every endpoint: the login with a session cookie, one plant and
  one device; the storage detail with a state of charge and a battery voltage.
\<close>

definition login_body :: string where
  \<comment> \<open>\<^verbatim>\<open>{"back":{"success":true,"user":{"id":1,"country":"ZA"},
      "data":[{"plantId":"9001","plantName":"Home"}]}}\<close>\<close>
  "login_body =
     ''{'' @ jq ''back'' @ '':{'' @ jq ''success'' @ '':true,'' @ jq ''user'' @ '':{'' @ jq ''id''
     @ '':1,'' @ jq ''country'' @ '':'' @ jq ''ZA'' @ ''},'' @ jq ''data'' @ '':[{'' @ jq ''plantId''
     @ '':'' @ jq ''9001'' @ '','' @ jq ''plantName'' @ '':'' @ jq ''Home'' @ ''}]}}''"

definition devices_body :: string where
  \<comment> \<open>\<^verbatim>\<open>{"deviceList":[{"deviceSn":"XYZ123"}]}\<close>\<close>
  "devices_body = ''{'' @ jq ''deviceList'' @ '':[{'' @ jq ''deviceSn'' @ '':'' @ jq ''XYZ123'' @ ''}]}''"

definition detail_body :: string where
  \<comment> \<open>\<^verbatim>\<open>{"obj":{"capacity":"55","vbat":"51.2"}}\<close>\<close>
  "detail_body =
     ''{'' @ jq ''obj'' @ '':{'' @ jq ''capacity'' @ '':'' @ jq ''55'' @ '','' @ jq ''vbat'' @ '':''
     @ jq ''51.2'' @ ''}}''"

definition energy_body :: string where
  \<comment> \<open>\<^verbatim>\<open>{"obj":{"epvToday":"3.5","eToUserToday":"1.2"}}\<close>\<close>
  "energy_body =
     ''{'' @ jq ''obj'' @ '':{'' @ jq ''epvToday'' @ '':'' @ jq ''3.5'' @ '','' @ jq ''eToUserToday''
     @ '':'' @ jq ''1.2'' @ ''}}''"

definition params_body :: string where
  \<comment> \<open>\<^verbatim>\<open>{"obj":{"storageDetailBean":{"vac":"230","ppv":"1200"}}}\<close>\<close>
  "params_body =
     ''{'' @ jq ''obj'' @ '':{'' @ jq ''storageDetailBean'' @ '':{'' @ jq ''vac'' @ '':'' @ jq ''230''
     @ '','' @ jq ''ppv'' @ '':'' @ jq ''1200'' @ ''}}}''"

definition plant_body :: string where
  \<comment> \<open>\<^verbatim>\<open>{"back":{"plantData":{"plantName":"Home"}}}\<close>\<close>
  "plant_body =
     ''{'' @ jq ''back'' @ '':{'' @ jq ''plantData'' @ '':{'' @ jq ''plantName'' @ '':'' @ jq ''Home''
     @ ''}}}''"

definition upstream_ok :: "nat \<Rightarrow> endpoint \<Rightarrow> string option \<Rightarrow> error + response" where
  "upstream_ok n ep c =
     (case ep of
        LoginAPI u p \<Rightarrow> Inr (ok_response [''JSESSIONID=abc; Path=/; HttpOnly''] login_body)
      | DeviceListTwo pid \<Rightarrow> Inr (ok_response [] devices_body)
      | DeviceListAll pid \<Rightarrow> Inr (ok_response [] devices_body)
      | StorageInfo sn \<Rightarrow> Inr (ok_response [] detail_body)
      | EnergyOverview pid sn \<Rightarrow> Inr (ok_response [] energy_body)
      | StorageParams sn \<Rightarrow> Inr (ok_response [] params_body)
      | PlantDetailAPI pid d \<Rightarrow> Inr (ok_response [] plant_body))"

definition fixed_clock :: "nat \<Rightarrow> int" where
  \<comment> \<open>a clock that stands at 2001-09-09T01:46:40Z\<close>
  "fixed_clock n = 1000000000000"

definition ok_world :: world where
  "ok_world = example_world upstream_ok fixed_clock"

definition logged_in :: state where
  \<comment> \<open>the state after one \<^verbatim>\<open>/api/connect\<close> against \<open>ok_world\<close>\<close>
  "logged_in =
     \<lparr>cookies = Some ''JSESSIONID=abc'', userId = JNum (Fin 1), plantId = JStr ''9001'',
      plantName = JStr ''Home'', deviceSn = JStr ''XYZ123'', lastLogin = Some 1000000000000,
      lastData = None, lastFetch = 0, cookieJar = [(''JSESSIONID'', ''abc'')],
      requestCounter = 2, clockReads = 1, loginCalls = 1, opCalls = 0\<rparr>"

definition always_expired :: "jsval prog" where
  \<comment> \<open>an operation that counts its invocation and raises the error of an HTML body\<close>
  "always_expired s =
     (Inl (Error ''session_expired: EnergyOverview returned HTML''), s\<lparr>opCalls := Suc (opCalls s)\<rparr>)"

definition always_nonjson :: "jsval prog" where
  \<comment> \<open>an operation that counts its invocation and raises an error that is not of the
     session-expired kind\<close>
  "always_nonjson s =
     (Inl (Error ''Upstream returned non-JSON''), s\<lparr>opCalls := Suc (opCalls s)\<rparr>)"





definition upstream_no_device :: "nat \<Rightarrow> endpoint \<Rightarrow> string option \<Rightarrow> error + response" where
  "upstream_no_device n ep c =
     (case ep of
        LoginAPI u p \<Rightarrow> Inr (ok_response [''JSESSIONID=abc; Path=/; HttpOnly''] login_body)
      | DeviceListTwo pid \<Rightarrow> Inr (ok_response [] ''{}'')
      | DeviceListAll pid \<Rightarrow> Inr (ok_response [] ''{}'')
      | _ \<Rightarrow> Inl (Error ''fetch failed''))"

definition no_device_world :: world where
  "no_device_world = example_world upstream_no_device fixed_clock"

definition no_device_session :: state where
  \<comment> \<open>the session after a login against \<open>no_device_world\<close>\<close>
  "no_device_session = logged_in\<lparr>deviceSn := JNull, requestCounter := 3\<rparr>"

definition later_clock :: "nat \<Rightarrow> int" where
  "later_clock n = 1000000061000"

definition later_world :: world where
  "later_world = example_world upstream_ok later_clock"








text \<open>
  Three bodies that are no JSON: \<^verbatim>\<open>{"a":1,"b":\<close>, cut short after a comma; an HTML page
  after a line feed; and a line of text (written where it is used).
\<close>

definition truncated_body :: string where
  "truncated_body = ''{'' @ jq ''a'' @ '':1,'' @ jq ''b'' @ '':''"

definition padded_page :: string where
  "padded_page = CHR 0x0A # ''<html>Sign in</html>''"




section \<open>The credential hasher: properties\<close>

lemma subst_nth: "i < length h \<Longrightarrow> j < length h \<Longrightarrow>
  (take i h @ ''c'' @ drop (i + 1) h) ! j = (if j = i then CHR ''c'' else h ! j)"
  by (auto simp: nth_append min_def)

lemma growattHash_loop_length: "length (growattHash_loop i h) = length h"
proof (induction i h rule: growattHash_loop.induct)
  case (1 i h)
  show ?case
  proof (cases "i < length h")
    case True
    then have "length (if h ! i = CHR ''0'' then take i h @ ''c'' @ drop (i + 1) h else h) = length h"
      by auto
    with 1 True show ?thesis by (subst growattHash_loop.simps) (simp del: growattHash_loop.simps)
  next
    case False
    then show ?thesis by (subst growattHash_loop.simps) simp
  qed
qed

lemma growattHash_loop_nth:
  "j < length h \<Longrightarrow>
   growattHash_loop i h ! j =
     (if i \<le> j \<and> even (j - i) \<and> h ! j = CHR ''0'' then CHR ''c'' else h ! j)"
proof (induction i h rule: growattHash_loop.induct)
  case (1 i h)
  show ?case
  proof (cases "i < length h")
    case False
    with 1(2) show ?thesis by (subst growattHash_loop.simps) simp
  next
    case True
    let ?h' = "if h ! i = CHR ''0'' then take i h @ ''c'' @ drop (i + 1) h else h"
    have len: "length ?h' = length h" using True by auto
    have nth: "?h' ! j = (if j = i \<and> h ! i = CHR ''0'' then CHR ''c'' else h ! j)"
      using True 1(2) subst_nth[of i h j] by auto
    have step: "growattHash_loop i h = growattHash_loop (i + 2) ?h'"
      using True by (subst growattHash_loop.simps) simp
    have IH: "growattHash_loop (i + 2) ?h' ! j =
        (if i + 2 \<le> j \<and> even (j - (i + 2)) \<and> ?h' ! j = CHR ''0'' then CHR ''c'' else ?h' ! j)"
      using 1(1)[OF True] 1(2) len by simp
    show ?thesis
    proof (cases "j = i")
      case True
      then show ?thesis unfolding step IH nth by simp
    next
      case False
      then consider "j < i" | "j = Suc i" | "i + 2 \<le> j" by linarith
      then have "(i + 2 \<le> j \<and> even (j - (i + 2))) = (i \<le> j \<and> even (j - i))"
      proof cases
        case 3
        then obtain k where "j = i + 2 + k" using le_iff_add by blast
        then show ?thesis by simp
      qed auto
      with False show ?thesis unfolding step IH nth by simp
    qed
  qed
qed

text \<open>
  Claim C8. For every password, \<^verbatim>\<open>growattHash\<close> returns the hexadecimal digest of the
  password with every \<^verbatim>\<open>'0'\<close> at an even index replaced by \<^verbatim>\<open>'c'\<close> and every other
  character unchanged: the result has the digest's length, its character at each index is
  as described, no even index holds \<^verbatim>\<open>'0'\<close>, and the result depends on the password
  through its digest only (the function reads no state, so it is deterministic). The
  digest is the platform's, whatever it is.
\<close>

theorem growattHash_spec:
  "length (growattHash md5 p) = length (md5 p) \<and>
   (\<forall>i < length (md5 p).
      growattHash md5 p ! i = (if even i \<and> md5 p ! i = CHR ''0'' then CHR ''c'' else md5 p ! i)) \<and>
   (\<forall>i < length (md5 p). even i \<longrightarrow> growattHash md5 p ! i \<noteq> CHR ''0'') \<and>
   (\<forall>q. md5 q = md5 p \<longrightarrow> growattHash md5 q = growattHash md5 p)"
  by (simp add: growattHash_def growattHash_loop_length growattHash_loop_nth)

text \<open>
  The digest of the password \<^verbatim>\<open>a\<close> has \<^verbatim>\<open>'0'\<close> at index 0, which becomes \<^verbatim>\<open>'c'\<close>, and
  at index 9, which stays.
\<close>

theorem growattHash_spec_witness:
  "(0::nat) < length (md5_example ''a'') \<and> md5_example ''a'' ! 0 = CHR ''0'' \<and>
   growattHash md5_example ''a'' ! 0 = CHR ''c'' \<and>
   (9::nat) < length (md5_example ''a'') \<and> md5_example ''a'' ! 9 = CHR ''0'' \<and>
   growattHash md5_example ''a'' ! 9 = CHR ''0''"
proof -
  have len: "length (md5_example ''a'') = 32" by (simp add: md5_example_def)
  have d0: "md5_example ''a'' ! 0 = CHR ''0''" by (simp add: md5_example_def)
  have d9: "md5_example ''a'' ! 9 = CHR ''0''" by (simp add: md5_example_def)
  from growattHash_spec[of md5_example "''a''"]
  have all: "\<forall>i < length (md5_example ''a'').
      growattHash md5_example ''a'' ! i =
        (if even i \<and> md5_example ''a'' ! i = CHR ''0'' then CHR ''c'' else md5_example ''a'' ! i)"
    by blast
  from all len have "growattHash md5_example ''a'' ! 0 =
        (if even (0::nat) \<and> md5_example ''a'' ! 0 = CHR ''0'' then CHR ''c'' else md5_example ''a'' ! 0)"
    by simp
  moreover from all len have "growattHash md5_example ''a'' ! 9 =
        (if even (9::nat) \<and> md5_example ''a'' ! 9 = CHR ''0'' then CHR ''c'' else md5_example ''a'' ! 9)"
    by simp
  ultimately show ?thesis using len d0 d9 by simp
qed

section \<open>The numeric coalesce: properties\<close>





section \<open>What the operations leave alone\<close>

lemma keepsD: "keeps f m \<Longrightarrow> f (snd (m s)) = f s"
  by (simp add: keeps_def)

lemma keeps_ret: "keeps f (ret x)"
  by (simp add: keeps_def ret_def)

lemma keeps_throw: "keeps f (throw e)"
  by (simp add: keeps_def throw_def)

lemma keeps_lift: "keeps f (lift r)"
  by (simp add: keeps_def lift_def)

lemma keeps_reading: "keeps f (reading g)"
  by (simp add: keeps_def reading_def)

lemma keeps_modify: "(\<And>t. f (u t) = f t) \<Longrightarrow> keeps f (modify u)"
  by (simp add: keeps_def modify_def)

lemma keeps_bind: "keeps f m \<Longrightarrow> (\<And>x. keeps f (g x)) \<Longrightarrow> keeps f (bind m g)"
proof -
  assume m: "keeps f m" and g: "\<And>x. keeps f (g x)"
  show ?thesis
    unfolding keeps_def
  proof
    fix s
    show "f (snd (bind m g s)) = f s"
    proof (cases "m s")
      case (Pair r s')
      with m have s': "f s' = f s" by (metis keepsD snd_conv)
      show ?thesis
      proof (cases r)
        case (Inl e)
        with Pair s' show ?thesis by (simp add: bind_def)
      next
        case (Inr x)
        with Pair s' keepsD[OF g, of x s'] show ?thesis by (simp add: bind_def)
      qed
    qed
  qed
qed

lemma keeps_if: "keeps f a \<Longrightarrow> keeps f b \<Longrightarrow> keeps f (if c then a else b)"
  by simp

lemma keeps_case_prod: "(\<And>a b. keeps f (g a b)) \<Longrightarrow> keeps f (case p of (a, b) \<Rightarrow> g a b)"
  by (cases p) simp

lemma keeps_case_option:
  "keeps f a \<Longrightarrow> (\<And>x. keeps f (g x)) \<Longrightarrow> keeps f (case v of None \<Rightarrow> a | Some x \<Rightarrow> g x)"
  by (cases v) simp_all

lemma keeps_caught: "keeps f m \<Longrightarrow> keeps f (caught m h)"
proof -
  assume m: "keeps f m"
  show ?thesis
    unfolding keeps_def
  proof
    fix s
    from m have "f (snd (m s)) = f s" by (rule keepsD)
    then show "f (snd (caught m h s)) = f s"
      by (cases "m s") (auto simp: caught_def split: sum.splits)
  qed
qed


lemma captureCookies_frame [simp]:
  "lastData (captureCookies res s) = lastData s"
  "lastFetch (captureCookies res s) = lastFetch s"
  "opCalls (captureCookies res s) = opCalls s"
  "loginCalls (captureCookies res s) = loginCalls s"
  "lastLogin (captureCookies res s) = lastLogin s"
  "requestCounter (captureCookies res s) = requestCounter s"
  "clockReads (captureCookies res s) = clockReads s"
  "deviceSn (captureCookies res s) = deviceSn s"
  "plantId (captureCookies res s) = plantId s"
  by (simp_all add: captureCookies_def Let_def)

lemma keeps_Date_now: "keeps cache_part (Date_now w)" "keeps loginCalls (Date_now w)"
  by (simp_all add: keeps_def Date_now_def cache_part_def)

lemma keeps_http: "keeps cache_part (http w ep c)" "keeps loginCalls (http w ep c)"
  by (simp_all add: keeps_def http_def cache_part_def Let_def)

lemma keeps_capture:
  "keeps cache_part (modify (captureCookies res))" "keeps loginCalls (modify (captureCookies res))"
  by (simp_all add: keeps_modify cache_part_def)

lemma keeps_growattFetch:
  "keeps cache_part (growattFetch w ep)" "keeps loginCalls (growattFetch w ep)"
  unfolding growattFetch_def
  by (intro keeps_bind keeps_reading keeps_http keeps_capture keeps_ret)+

lemma keeps_fetch_json:
  "keeps cache_part (fetch_json w ep l)" "keeps loginCalls (fetch_json w ep l)"
  unfolding fetch_json_def by (intro keeps_bind keeps_growattFetch keeps_lift)+

lemma keeps_device_list:
  "keeps cache_part (device_list w ep l)" "keeps loginCalls (device_list w ep l)"
  unfolding device_list_def by (intro keeps_bind keeps_fetch_json keeps_lift keeps_ret)+

lemma keeps_select_device:
  "keeps cache_part (select_device d)" "keeps loginCalls (select_device d)"
  unfolding select_device_def
  by (intro keeps_bind keeps_lift keeps_modify; simp add: cache_part_def)+

lemma keeps_discoverDevices:
  "keeps cache_part (discoverDevices w)" "keeps loginCalls (discoverDevices w)"
  unfolding discoverDevices_def
  by (intro keeps_bind keeps_if keeps_ret keeps_select_device keeps_reading keeps_device_list)+

lemma login_cache: "keeps cache_part (login w)"
  unfolding login_def
  by (intro keeps_bind keeps_modify keeps_case_prod keeps_case_option keeps_if keeps_throw
        keeps_http keeps_capture keeps_lift keeps_Date_now keeps_discoverDevices keeps_reading;
      simp add: cache_part_def)+

section \<open>The session manager: properties\<close>

lemma login_rest_keeps_calls:
  "keeps loginCalls
     (case (GROWATT_USERNAME w, GROWATT_PASSWORD w) of
       (Some username, Some password) \<Rightarrow>
         if username = [] \<or> password = [] then
           throw (Error ''GROWATT_USERNAME and GROWATT_PASSWORD must be set in .env'')
         else
           bind (modify (\<lambda>s. s\<lparr>cookies := None, cookieJar := []\<rparr>)) (\<lambda>_.
           bind (http w (LoginAPI username (growattHash (md5_hex w) password)) None) (\<lambda>res.
           bind (modify (captureCookies res)) (\<lambda>_.
           bind (lift (body res)) (\<lambda>responseText.
           bind (lift (login_validate w res responseText)) (\<lambda>(user, plants).
           bind (lift (getprop user ''id'')) (\<lambda>uid.
           bind (modify (\<lambda>s. s\<lparr>userId := uid,
                                  plantId := getp (index0 plants) ''plantId'',
                                  plantName := getp (index0 plants) ''plantName''\<rparr>)) (\<lambda>_.
           bind (Date_now w) (\<lambda>now.
           bind (modify (\<lambda>s. s\<lparr>lastLogin := Some now\<rparr>)) (\<lambda>_.
           bind (discoverDevices w) (\<lambda>_.
           reading (login_info user)))))))))))
     | _ \<Rightarrow> throw (Error ''GROWATT_USERNAME and GROWATT_PASSWORD must be set in .env''))"
  by (intro keeps_bind keeps_modify keeps_case_prod keeps_case_option keeps_if keeps_throw
        keeps_http keeps_capture keeps_lift keeps_Date_now keeps_discoverDevices keeps_reading;
      simp)+

lemma bind_modify_keeps: "keeps f g \<Longrightarrow> f (snd (bind (modify u) (\<lambda>_. g) s)) = f (u s)"
  by (simp add: bind_def modify_def keepsD)

lemma login_calls: "loginCalls (snd (login w s)) = Suc (loginCalls s)"
proof -
  have "loginCalls (snd (login w s)) = loginCalls ((\<lambda>s. s\<lparr>loginCalls := Suc (loginCalls s)\<rparr>) s)"
    unfolding login_def by (rule bind_modify_keeps[OF login_rest_keeps_calls])
  then show ?thesis by simp
qed

lemma login_unit_cache: "keeps cache_part (bind (login w) (\<lambda>_. ret ()))"
  by (intro keeps_bind login_cache keeps_ret)

lemma login_unit_calls: "loginCalls (snd (bind (login w) (\<lambda>_. ret ()) s)) = Suc (loginCalls s)"
  using login_calls[of w s] by (cases "login w s") (auto simp: bind_def ret_def split: sum.splits)

lemma ensureSession_cache: "keeps cache_part (ensureSession w)"
  unfolding ensureSession_def
  by (intro keeps_bind keeps_reading keeps_if login_cache keeps_ret keeps_Date_now)+

lemma ensureSession_skip:
  "\<not> needs_login w s \<Longrightarrow> ensureSession w s = (Inr (), s\<lparr>clockReads := Suc (clockReads s)\<rparr>)"
  by (auto simp: needs_login_def ensureSession_def bind_def reading_def Date_now_def ret_def
      time_truthy_def split: option.splits)

lemma ensureSession_calls:
  "loginCalls (snd (ensureSession w s)) = (if needs_login w s then Suc (loginCalls s) else loginCalls s)"
proof (cases "needs_login w s")
  case False
  then show ?thesis by (simp add: ensureSession_skip)
next
  case True
  have "loginCalls (snd (ensureSession w s)) = Suc (loginCalls s)"
  proof (cases "\<not> str_truthy (cookies s) \<or> \<not> time_truthy (lastLogin s)")
    case True
    then show ?thesis
      using login_unit_calls[of w s] by (auto simp: ensureSession_def bind_def reading_def)
  next
    case False
    with True obtain t where t: "lastLogin s = Some t" "clock w (clockReads s) - t > SESSION_TTL"
      by (auto simp: needs_login_def)
    with False show ?thesis
      using login_unit_calls[of w "s\<lparr>clockReads := Suc (clockReads s)\<rparr>"]
      by (auto simp: ensureSession_def bind_def reading_def Date_now_def)
  qed
  with True show ?thesis by simp
qed

text \<open>
  Claim C7. \<^verbatim>\<open>ensureSession\<close> enters \<^verbatim>\<open>login\<close> exactly once when the cookies are
  absent, or there is no login timestamp, or the clock reads more than the 30-minute
  time-to-live past the timestamp; otherwise it enters \<^verbatim>\<open>login\<close> not at all and changes
  nothing (the state keeps every field; only the count of clock readings moves). The first
  conjunct states this with the tests the code makes, which are JavaScript truthiness
  tests; the third restates it with "absent" for a session whose cookie string, when
  present, is not empty and whose timestamp, when present, is not the instant 0.
\<close>

theorem ensureSession_login_iff:
  "loginCalls (snd (ensureSession w s)) =
     (if \<not> str_truthy (cookies s) \<or> \<not> time_truthy (lastLogin s) \<or>
         (\<exists>t. lastLogin s = Some t \<and> clock w (clockReads s) - t > SESSION_TTL)
      then loginCalls s + 1 else loginCalls s) \<and>
   (\<not> (\<not> str_truthy (cookies s) \<or> \<not> time_truthy (lastLogin s) \<or>
        (\<exists>t. lastLogin s = Some t \<and> clock w (clockReads s) - t > SESSION_TTL))
      \<longrightarrow> ensureSession w s = (Inr (), s\<lparr>clockReads := Suc (clockReads s)\<rparr>)) \<and>
   (cookies s \<noteq> Some [] \<and> lastLogin s \<noteq> Some 0 \<longrightarrow>
      (loginCalls (snd (ensureSession w s)) = loginCalls s + 1) =
        (cookies s = None \<or> lastLogin s = None \<or>
         (\<exists>t. lastLogin s = Some t \<and> clock w (clockReads s) - t > 30 * 60 * 1000)))"
proof (intro conjI impI)
  show "loginCalls (snd (ensureSession w s)) =
     (if \<not> str_truthy (cookies s) \<or> \<not> time_truthy (lastLogin s) \<or>
         (\<exists>t. lastLogin s = Some t \<and> clock w (clockReads s) - t > SESSION_TTL)
      then loginCalls s + 1 else loginCalls s)"
    using ensureSession_calls[of w s] by (simp add: needs_login_def)
next
  assume "\<not> (\<not> str_truthy (cookies s) \<or> \<not> time_truthy (lastLogin s) \<or>
        (\<exists>t. lastLogin s = Some t \<and> clock w (clockReads s) - t > SESSION_TTL))"
  then have "\<not> needs_login w s" by (simp add: needs_login_def)
  then show "ensureSession w s = (Inr (), s\<lparr>clockReads := Suc (clockReads s)\<rparr>)"
    by (rule ensureSession_skip)
next
  assume wf: "cookies s \<noteq> Some [] \<and> lastLogin s \<noteq> Some 0"
  then have "needs_login w s =
      (cookies s = None \<or> lastLogin s = None \<or>
         (\<exists>t. lastLogin s = Some t \<and> clock w (clockReads s) - t > 30 * 60 * 1000))"
    by (auto simp: needs_login_def str_truthy_def time_truthy_def SESSION_TTL_def
        split: option.splits)
  then show "(loginCalls (snd (ensureSession w s)) = loginCalls s + 1) =
        (cookies s = None \<or> lastLogin s = None \<or>
         (\<exists>t. lastLogin s = Some t \<and> clock w (clockReads s) - t > 30 * 60 * 1000))"
    using ensureSession_calls[of w s] by auto
qed

lemma ensureSession_opCalls: "opCalls (snd (ensureSession w s)) = opCalls s"
  using keepsD[OF ensureSession_cache, of w s] by (simp add: cache_part_def)

text \<open>
  Claim C6, as amended. Let \<open>fn\<close> count its invocations in \<open>opCalls\<close>. Then
  \<^verbatim>\<open>withSessionRetry(fn)\<close> invokes \<open>fn\<close> at most twice. If the first invocation returns,
  that is the result. If it fails with an error whose message contains neither
  \<^verbatim>\<open>session_expired\<close> nor \<^verbatim>\<open>non-JSON\<close> (or is empty), the error propagates and \<open>fn\<close>
  has run once. If it fails with a message containing \<^verbatim>\<open>session_expired\<close> or
  \<^verbatim>\<open>non-JSON\<close>, \<^verbatim>\<open>lastLogin\<close> is cleared and \<^verbatim>\<open>ensureSession\<close> runs: when that fails,
  its error propagates and \<open>fn\<close> has run once; when it returns, \<open>fn\<close> runs a second time
  and its outcome, error or value, is the result.
\<close>

theorem withSessionRetry_bounded:
  assumes counts: "\<forall>t. opCalls (snd (fn t)) = Suc (opCalls t)"
  shows
  "opCalls (snd (withSessionRetry w fn s)) \<le> opCalls s + 2 \<and>
   (\<forall>v s1. fn s = (Inr v, s1) \<longrightarrow>
      withSessionRetry w fn s = (Inr v, s1) \<and> opCalls s1 = opCalls s + 1) \<and>
   (\<forall>err s1. fn s = (Inl err, s1) \<and>
        \<not> (message err \<noteq> [] \<and> (str_includes (message err) ''non-JSON'' \<or>
                                  str_includes (message err) ''session_expired'')) \<longrightarrow>
      withSessionRetry w fn s = (Inl err, s1) \<and> opCalls s1 = opCalls s + 1) \<and>
   (\<forall>err s1. fn s = (Inl err, s1) \<and> message err \<noteq> [] \<and>
        (str_includes (message err) ''non-JSON'' \<or> str_includes (message err) ''session_expired'') \<longrightarrow>
      (\<forall>e s2. ensureSession w (s1\<lparr>lastLogin := None\<rparr>) = (Inl e, s2) \<longrightarrow>
         withSessionRetry w fn s = (Inl e, s2) \<and> opCalls s2 = opCalls s + 1) \<and>
      (\<forall>s2. ensureSession w (s1\<lparr>lastLogin := None\<rparr>) = (Inr (), s2) \<longrightarrow>
         withSessionRetry w fn s = fn s2 \<and> opCalls (snd (fn s2)) = opCalls s + 2))"
proof -
  obtain r s1 where first: "fn s = (r, s1)" by (cases "fn s")
  from counts first have c1: "opCalls s1 = Suc (opCalls s)" by (metis snd_conv)
  show ?thesis
  proof (cases r)
    case (Inr v)
    with first c1 show ?thesis by (simp add: withSessionRetry_def)
  next
    case (Inl err)
    show ?thesis
    proof (cases "retry_trigger err")
      case False
      with first Inl c1 show ?thesis by (auto simp: withSessionRetry_def retry_trigger_def)
    next
      case True
      obtain r2 s2 where ens: "ensureSession w (s1\<lparr>lastLogin := None\<rparr>) = (r2, s2)"
        by (cases "ensureSession w (s1\<lparr>lastLogin := None\<rparr>)")
      from ensureSession_opCalls[of w "s1\<lparr>lastLogin := None\<rparr>"] ens c1
      have c2: "opCalls s2 = Suc (opCalls s)" by simp
      show ?thesis
      proof (cases r2)
        case (Inl e)
        with first \<open>r = Inl err\<close> True ens c2 show ?thesis
          by (auto simp: withSessionRetry_def retry_trigger_def bind_def)
      next
        case (Inr u)
        from counts c2 have "opCalls (snd (fn s2)) = opCalls s + 2" by simp
        with first \<open>r = Inl err\<close> True ens Inr show ?thesis
          by (auto simp: withSessionRetry_def retry_trigger_def bind_def)
      qed
    qed
  qed
qed

text \<open>
  A session logged in at the instant the clock shows is left alone; without a timestamp,
  or with one 2000 seconds old, \<^verbatim>\<open>login\<close> is entered once.
\<close>

theorem ensureSession_login_iff_witness:
  "cookies logged_in \<noteq> Some [] \<and> lastLogin logged_in \<noteq> Some 0 \<and>
   lastLogin logged_in = Some 1000000000000 \<and>
   clock ok_world (clockReads logged_in) - 1000000000000 = 0 \<and>
   loginCalls (snd (ensureSession ok_world logged_in)) = loginCalls logged_in \<and>
   ensureSession ok_world logged_in = (Inr (), logged_in\<lparr>clockReads := Suc (clockReads logged_in)\<rparr>) \<and>
   loginCalls (snd (ensureSession ok_world (logged_in\<lparr>lastLogin := None\<rparr>))) = loginCalls logged_in + 1 \<and>
   loginCalls (snd (ensureSession ok_world (logged_in\<lparr>lastLogin := Some 999998000000\<rparr>)))
     = loginCalls logged_in + 1"
proof -
  have wf: "cookies logged_in \<noteq> Some []" "lastLogin logged_in \<noteq> Some 0"
    "lastLogin logged_in = Some 1000000000000"
    "clock ok_world (clockReads logged_in) - 1000000000000 = 0"
    by (simp_all add: logged_in_def ok_world_def example_world_def fixed_clock_def)
  have recent: "\<not> (\<not> str_truthy (cookies logged_in) \<or> \<not> time_truthy (lastLogin logged_in) \<or>
        (\<exists>t. lastLogin logged_in = Some t \<and>
             clock ok_world (clockReads logged_in) - t > SESSION_TTL))"
    by (simp add: logged_in_def ok_world_def example_world_def fixed_clock_def str_truthy_def
        time_truthy_def SESSION_TTL_def)
  from ensureSession_login_iff[of ok_world logged_in] recent
  have a: "loginCalls (snd (ensureSession ok_world logged_in)) = loginCalls logged_in"
    and b: "ensureSession ok_world logged_in
            = (Inr (), logged_in\<lparr>clockReads := Suc (clockReads logged_in)\<rparr>)"
    by auto
  have "\<not> time_truthy (lastLogin (logged_in\<lparr>lastLogin := None\<rparr>))"
    by (simp add: time_truthy_def)
  with ensureSession_login_iff[of ok_world "logged_in\<lparr>lastLogin := None\<rparr>"]
  have c: "loginCalls (snd (ensureSession ok_world (logged_in\<lparr>lastLogin := None\<rparr>)))
           = loginCalls logged_in + 1"
    by simp
  have "\<exists>t. lastLogin (logged_in\<lparr>lastLogin := Some 999998000000\<rparr>) = Some t \<and>
          clock ok_world (clockReads (logged_in\<lparr>lastLogin := Some 999998000000\<rparr>)) - t > SESSION_TTL"
    by (simp add: logged_in_def ok_world_def example_world_def fixed_clock_def SESSION_TTL_def)
  with ensureSession_login_iff[of ok_world "logged_in\<lparr>lastLogin := Some 999998000000\<rparr>"]
  have d: "loginCalls (snd (ensureSession ok_world (logged_in\<lparr>lastLogin := Some 999998000000\<rparr>)))
           = loginCalls logged_in + 1"
    by simp
  from wf a b c d show ?thesis by blast
qed

text \<open>
  An operation that always raises the session-expired error is invoked exactly twice and
  its error propagates.
\<close>

theorem withSessionRetry_bounded_witness:
  "(\<forall>t. opCalls (snd (always_expired t)) = Suc (opCalls t)) \<and>
   opCalls (snd (withSessionRetry ok_world always_expired logged_in)) \<le> opCalls logged_in + 2 \<and>
   opCalls (snd (withSessionRetry ok_world always_expired logged_in)) = opCalls logged_in + 2 \<and>
   fst (withSessionRetry ok_world always_expired logged_in)
     = Inl (Error ''session_expired: EnergyOverview returned HTML'')"
proof -
  have counts: "\<forall>t. opCalls (snd (always_expired t)) = Suc (opCalls t)"
    by (simp add: always_expired_def)
  have bound: "opCalls (snd (withSessionRetry ok_world always_expired logged_in))
               \<le> opCalls logged_in + 2"
    using withSessionRetry_bounded[OF counts, of ok_world logged_in] by blast
  have run: "opCalls (snd (withSessionRetry ok_world always_expired logged_in)) = opCalls logged_in + 2"
    "fst (withSessionRetry ok_world always_expired logged_in)
       = Inl (Error ''session_expired: EnergyOverview returned HTML'')"
    by code_simp+
  from counts bound run show ?thesis by blast
qed

text \<open>
  The claim as stated fails: an operation whose error is not of the session-expired kind
  (its message has \<^verbatim>\<open>non-JSON\<close> and no \<^verbatim>\<open>session_expired\<close>) is retried after a new
  login all the same.
\<close>

theorem withSessionRetry_other_error_retried:
  "fst (always_nonjson logged_in) = Inl (Error ''Upstream returned non-JSON'') \<and>
   \<not> str_includes ''Upstream returned non-JSON'' ''session_expired'' \<and>
   opCalls (snd (always_nonjson logged_in)) = opCalls logged_in + 1 \<and>
   opCalls (snd (withSessionRetry ok_world always_nonjson logged_in)) = opCalls logged_in + 2 \<and>
   loginCalls (snd (withSessionRetry ok_world always_nonjson logged_in)) = loginCalls logged_in + 1"
  by code_simp

section \<open>The handler: properties\<close>

lemma nt_ret: "never_throws (ret x)"
  by (simp add: never_throws_def ret_def)

lemma nt_reading: "never_throws (reading g)"
  by (simp add: never_throws_def reading_def)

lemma nt_modify: "never_throws (modify u)"
  by (simp add: never_throws_def modify_def)

lemma nt_Date_now: "never_throws (Date_now w)"
  by (simp add: never_throws_def Date_now_def)


lemma nt_bind: "never_throws m \<Longrightarrow> (\<And>x. never_throws (g x)) \<Longrightarrow> never_throws (bind m g)"
  unfolding never_throws_def
proof
  fix s
  assume m: "\<forall>s. \<exists>x s'. m s = (Inr x, s')" and g: "\<And>x. \<forall>s. \<exists>y s'. g x s = (Inr y, s')"
  from m obtain x s' where ms: "m s = (Inr x, s')" by blast
  from g obtain y s'' where "g x s' = (Inr y, s'')" by blast
  with ms show "\<exists>y s''. bind m g s = (Inr y, s'')" by (simp add: bind_def)
qed

lemma cache_fresh_eq: "cache_fresh w s = (Inr (cache_hit w s), after_check s)"
  by (simp add: cache_fresh_def cache_hit_def after_check_def bind_def reading_def ret_def
      Date_now_def split: option.splits)

lemma after_check_cache [simp]:
  "lastData (after_check s) = lastData s" "lastFetch (after_check s) = lastFetch s"
  "requestCounter (after_check s) = requestCounter s" "loginCalls (after_check s) = loginCalls s"
  by (simp_all add: after_check_def split: option.splits)

lemma dashData_state:
  "plantName t = plantName s \<Longrightarrow> plantId t = plantId s \<Longrightarrow> deviceSn t = deviceSn s \<Longrightarrow>
   dashData w t = dashData w s"
  by (intro ext) (simp add: dashData_def plant_section_def inverter_section_def)

text \<open>The part of the \<^verbatim>\<open>try\<close> block after \<^verbatim>\<open>ensureSession\<close> always returns.\<close>

lemma refresh_eq:
  assumes sr: "caught (withSessionRetry w (getStorageData w)) storage_fallback s1 = (Inr storageRaw, s2)"
    and pd: "caught (withSessionRetry w (getPlantDetail w)) plant_fallback s2 = (Inr plantDetail, s3)"
  shows
  "bind (caught (withSessionRetry w (getStorageData w)) storage_fallback) (\<lambda>storageRaw.
   bind (caught (withSessionRetry w (getPlantDetail w)) plant_fallback) (\<lambda>plantDetail.
   bind (Date_now w) (\<lambda>now.
   bind (reading (\<lambda>s. dashData w s now storageRaw plantDetail)) (\<lambda>dash.
   bind (Date_now w) (\<lambda>fetched.
   bind (modify (\<lambda>s. s\<lparr>lastData := Some dash, lastFetch := fetched\<rparr>)) (\<lambda>_.
   ret (JObj ((''success'', JBool True) # (''cached'', JBool False) # spread dash)))))))) s1
   = (Inr (JObj ((''success'', JBool True) # (''cached'', JBool False)
                  # spread (dashData w s3 (clock w (clockReads s3)) storageRaw plantDetail))),
      s3\<lparr>clockReads := clockReads s3 + 2,
         lastData := Some (dashData w s3 (clock w (clockReads s3)) storageRaw plantDetail),
         lastFetch := clock w (Suc (clockReads s3))\<rparr>)"
proof -
  have d: "dashData w (s3\<lparr>clockReads := Suc (clockReads s3)\<rparr>) = dashData w s3"
    by (rule dashData_state) simp_all
  show ?thesis
    by (simp add: bind_def sr pd Date_now_def reading_def modify_def ret_def d)
qed


lemma data_pipeline_hit:
  assumes "cache_hit w s"
  shows "\<exists>d. lastData s = Some d \<and>
     data_pipeline w s =
       (Inr (JObj ((''success'', JBool True) # (''cached'', JBool True) # spread d)),
        s\<lparr>clockReads := clockReads s + 2\<rparr>)"
proof -
  from assms obtain d where d: "lastData s = Some d" "truthy d"
    by (auto simp: cache_hit_def split: option.splits)
  then have ac: "after_check s = s\<lparr>clockReads := Suc (clockReads s)\<rparr>"
    by (simp add: after_check_def)
  have "data_pipeline w s =
       (Inr (JObj ((''success'', JBool True) # (''cached'', JBool True) # spread d)),
        s\<lparr>clockReads := clockReads s + 2\<rparr>)"
    unfolding data_pipeline_def
    by (simp add: bind_def cache_fresh_eq assms ac Date_now_def reading_def ret_def d)
  with d show ?thesis by blast
qed

lemma data_pipeline_miss:
  assumes "\<not> cache_hit w s"
  shows "data_pipeline w s =
     bind (ensureSession w) (\<lambda>_.
       bind (caught (withSessionRetry w (getStorageData w)) storage_fallback) (\<lambda>storageRaw.
       bind (caught (withSessionRetry w (getPlantDetail w)) plant_fallback) (\<lambda>plantDetail.
       bind (Date_now w) (\<lambda>now.
       bind (reading (\<lambda>s. dashData w s now storageRaw plantDetail)) (\<lambda>dash.
       bind (Date_now w) (\<lambda>fetched.
       bind (modify (\<lambda>s. s\<lparr>lastData := Some dash, lastFetch := fetched\<rparr>)) (\<lambda>_.
       ret (JObj ((''success'', JBool True) # (''cached'', JBool False) # spread dash)))))))))
     (after_check s)"
  unfolding data_pipeline_def
  by (subst bind_def) (simp add: cache_fresh_eq assms)

lemma data_pipeline_miss_ok:
  assumes miss: "\<not> cache_hit w s"
    and ens: "ensureSession w (after_check s) = (Inr (), s1)"
    and sr: "caught (withSessionRetry w (getStorageData w)) storage_fallback s1 = (Inr storageRaw, s2)"
    and pd: "caught (withSessionRetry w (getPlantDetail w)) plant_fallback s2 = (Inr plantDetail, s3)"
  shows "data_pipeline w s =
     (Inr (JObj ((''success'', JBool True) # (''cached'', JBool False)
                  # spread (dashData w s3 (clock w (clockReads s3)) storageRaw plantDetail))),
      s3\<lparr>clockReads := clockReads s3 + 2,
         lastData := Some (dashData w s3 (clock w (clockReads s3)) storageRaw plantDetail),
         lastFetch := clock w (Suc (clockReads s3))\<rparr>)"
  unfolding data_pipeline_miss[OF miss]
  by (subst bind_def) (simp add: ens refresh_eq[OF sr pd])



lemma api_data_of_pipeline:
  "data_pipeline w s = (Inr r, s') \<Longrightarrow> api_data w s = (r, s')"
  "data_pipeline w s = (Inl err, s') \<Longrightarrow>
     api_data w s = (failure err,
        if str_includes (message err) ''Login'' \<or> str_includes (message err) ''session''
        then s'\<lparr>lastLogin := None\<rparr> else s')"
  by (simp_all add: api_data_def)




section \<open>Reading the response\<close>

text \<open>
  Property access on an object literal, key by key: a later entry of the literal wins.
\<close>

lemma getp_Nil: "getp (JObj []) k = JUndefined"
  by simp

lemma getp_Cons:
  "getp (JObj ((k', v) # kvs)) k =
     (if k \<in> set (map fst kvs) then getp (JObj kvs) k else if k = k' then v else JUndefined)"
proof (cases "map_of (rev kvs) k")
  case None
  then have "k \<notin> set (map fst kvs)" by (simp add: map_of_eq_None_iff)
  with None show ?thesis by (simp add: map_add_def)
next
  case (Some x)
  then have "k \<in> set (map fst kvs)" by (metis map_of_eq_None_iff option.distinct(1) set_map set_rev)
  with Some show ?thesis by (simp add: map_add_def)
qed

declare getp.simps(1) [simp del]
declare getp_Nil [simp] getp_Cons [simp]

lemma dash_sections:
  "getp (dashData w s now sr pd) ''plant'' = plant_section s (sd_of sr) (energy_of sr) (bean_of sr)"
  "getp (dashData w s now sr pd) ''pv'' = pv_section (sd_of sr) (energy_of sr) (bean_of sr)"
  "getp (dashData w s now sr pd) ''battery'' = battery_section (sd_of sr) (energy_of sr) (bean_of sr)"
  "getp (dashData w s now sr pd) ''load'' = load_section (sd_of sr) (energy_of sr) (bean_of sr)"
  "getp (dashData w s now sr pd) ''grid'' = grid_section (sd_of sr) (energy_of sr) (bean_of sr)"
  "getp (dashData w s now sr pd) ''inverter''
     = inverter_section w s (sd_of sr) (bean_of sr) (paramsRoot_of sr) (storageBean_of sr)"
  "getp (dashData w s now sr pd) ''energy'' = energy_section (sd_of sr) (energy_of sr) (bean_of sr)"
  by (simp_all add: dashData_def Let_def)

lemma response_fields:
  "getp (JObj ((''success'', a) # (''cached'', b) # spread (dashData w s now sr pd))) ''success'' = a"
  "getp (JObj ((''success'', a) # (''cached'', b) # spread (dashData w s now sr pd))) ''cached'' = b"
  "sec \<noteq> ''success'' \<Longrightarrow> sec \<noteq> ''cached'' \<Longrightarrow>
   getp (JObj ((''success'', a) # (''cached'', b) # spread (dashData w s now sr pd))) sec
     = getp (dashData w s now sr pd) sec"
  by (auto simp: dashData_def Let_def)

lemma truthy_dashData: "truthy (dashData w s now sr pd)"
  by (simp add: dashData_def Let_def)

lemma parseInt_undefined: "parseInt_str ''undefined'' = NaN"
  by code_simp

lemma fallback_sources:
  "sd_of (storage_fallback e) = JObj []" "energy_of (storage_fallback e) = JObj []"
  "paramsRoot_of (storage_fallback e) = JObj []" "bean_of (storage_fallback e) = JObj []"
  "storageBean_of (storage_fallback e) = JObj []"
  by (simp_all add: sd_of_def energy_of_def paramsRoot_of_def bean_of_def storageBean_of_def
      storage_fallback_def or_else_def opt_getp_def nullish_def)

lemma pf_undefined [simp]: "pf (JUndefined # vs) = pf vs"
  by (simp add: Let_def)

lemma fallback_zero:
  "\<forall>p \<in> set numeric_fields.
     field (dashData w t now (storage_fallback e) pd) (fst p) (snd p) = JNum (Fin 0)"
  by (simp add: numeric_fields_def field_def dash_sections fallback_sources plant_section_def
      pv_section_def battery_section_def load_section_def grid_section_def inverter_section_def
      energy_section_def parseInt_def to_str_def parseInt_undefined num_or_def)

lemma numeric_sections:
  "p \<in> set numeric_fields \<Longrightarrow> fst p \<noteq> ''success'' \<and> fst p \<noteq> ''cached''"
  by (auto simp: numeric_fields_def)

section \<open>The example run\<close>

text \<open>One refresh against \<open>ok_world\<close>, from a state with a live session.\<close>

lemma ok_clock [simp]: "clock ok_world n = 1000000000000"
  by (simp add: ok_world_def example_world_def fixed_clock_def)

lemma later_clock [simp]: "clock later_world n = 1000000061000"
  by (simp add: later_world_def example_world_def later_clock_def)

lemma logged_in_fields [simp]:
  "lastData logged_in = None" "lastLogin logged_in = Some 1000000000000"
  "cookies logged_in = Some ''JSESSIONID=abc''" "clockReads logged_in = 1"
  "requestCounter logged_in = 2" "loginCalls logged_in = 1"
  by (simp_all add: logged_in_def)










section \<open>Every source fails\<close>

lemma snapshot_response_zero:
  assumes "\<forall>p \<in> set numeric_fields. field (dashData w t now sr pd) (fst p) (snd p) = JNum (Fin 0)"
  shows "\<forall>p \<in> set numeric_fields.
           field (JObj ((''success'', a) # (''cached'', b) # spread (dashData w t now sr pd)))
             (fst p) (snd p) = JNum (Fin 0)"
proof
  fix p assume p: "p \<in> set numeric_fields"
  then have "fst p \<noteq> ''success''" "fst p \<noteq> ''cached''" using numeric_sections by blast+
  then have "field (JObj ((''success'', a) # (''cached'', b) # spread (dashData w t now sr pd)))
             (fst p) (snd p) = field (dashData w t now sr pd) (fst p) (snd p)"
    by (simp add: field_def response_fields del: getp_Cons)
  with assms p show "field (JObj ((''success'', a) # (''cached'', b) # spread (dashData w t now sr pd)))
             (fst p) (snd p) = JNum (Fin 0)" by simp
qed

text \<open>
  Claim C10. On a cache miss with a usable session, if both \<^verbatim>\<open>withSessionRetry(getStorageData)\<close>
  and \<^verbatim>\<open>withSessionRetry(getPlantDetail)\<close> throw, the handler still answers
  \<^verbatim>\<open>success: true, cached: false\<close>; every numeric field of the snapshot is 0; the snapshot is
  stored in \<^verbatim>\<open>lastData\<close>; and every later request that finds this snapshot fresh is answered
  \<^verbatim>\<open>success: true, cached: true\<close> with the same all-zero fields, the snapshot staying stored.
\<close>

theorem all_sources_fail_zero_snapshot:
  assumes miss: "\<not> cache_hit w s"
    and ens: "ensureSession w (after_check s) = (Inr (), s1)"
    and storage_fails: "withSessionRetry w (getStorageData w) s1 = (Inl e1, s2)"
    and plant_fails: "withSessionRetry w (getPlantDetail w) s2 = (Inl e2, s3)"
  shows "\<exists>d. lastData (snd (api_data w s)) = Some d \<and>
           fst (api_data w s) = JObj ((''success'', JBool True) # (''cached'', JBool False) # spread d) \<and>
           getp (fst (api_data w s)) ''success'' = JBool True \<and>
           getp (fst (api_data w s)) ''cached'' = JBool False \<and>
           (\<forall>p \<in> set numeric_fields. field (fst (api_data w s)) (fst p) (snd p) = JNum (Fin 0)) \<and>
           (\<forall>p \<in> set numeric_fields. field d (fst p) (snd p) = JNum (Fin 0)) \<and>
           (\<forall>w' s'. lastData s' = Some d \<and> cache_hit w' s' \<longrightarrow>
              fst (api_data w' s') = JObj ((''success'', JBool True) # (''cached'', JBool True) # spread d) \<and>
              getp (fst (api_data w' s')) ''success'' = JBool True \<and>
              getp (fst (api_data w' s')) ''cached'' = JBool True \<and>
              (\<forall>p \<in> set numeric_fields. field (fst (api_data w' s')) (fst p) (snd p) = JNum (Fin 0)) \<and>
              lastData (snd (api_data w' s')) = Some d)"
proof -
  let ?d = "dashData w s3 (clock w (clockReads s3)) (storage_fallback e1) (plant_fallback e2)"
  have sr: "caught (withSessionRetry w (getStorageData w)) storage_fallback s1
              = (Inr (storage_fallback e1), s2)"
    by (simp add: caught_def storage_fails)
  have pd: "caught (withSessionRetry w (getPlantDetail w)) plant_fallback s2
              = (Inr (plant_fallback e2), s3)"
    by (simp add: caught_def plant_fails)
  have res: "api_data w s =
      (JObj ((''success'', JBool True) # (''cached'', JBool False) # spread ?d),
       s3\<lparr>clockReads := clockReads s3 + 2, lastData := Some ?d,
          lastFetch := clock w (Suc (clockReads s3))\<rparr>)"
    by (rule api_data_of_pipeline(1)[OF data_pipeline_miss_ok[OF miss ens sr pd]])
  have zero: "\<forall>p \<in> set numeric_fields. field ?d (fst p) (snd p) = JNum (Fin 0)"
    by (rule fallback_zero)
  have stored: "lastData (snd (api_data w s)) = Some ?d" by (simp add: res)
  have shape: "fst (api_data w s)
      = JObj ((''success'', JBool True) # (''cached'', JBool False) # spread ?d)"
    by (simp add: res)
  have flags: "getp (fst (api_data w s)) ''success'' = JBool True"
    "getp (fst (api_data w s)) ''cached'' = JBool False"
    by (simp_all add: shape response_fields del: getp_Cons)
  have zero_now: "\<forall>p \<in> set numeric_fields. field (fst (api_data w s)) (fst p) (snd p) = JNum (Fin 0)"
    unfolding shape by (rule snapshot_response_zero[OF zero])
  have later: "fst (api_data w' s') = JObj ((''success'', JBool True) # (''cached'', JBool True) # spread ?d) \<and>
              getp (fst (api_data w' s')) ''success'' = JBool True \<and>
              getp (fst (api_data w' s')) ''cached'' = JBool True \<and>
              (\<forall>p \<in> set numeric_fields. field (fst (api_data w' s')) (fst p) (snd p) = JNum (Fin 0)) \<and>
              lastData (snd (api_data w' s')) = Some ?d"
    if hyp: "lastData s' = Some ?d \<and> cache_hit w' s'" for w' s'
  proof -
    from hyp have ld: "lastData s' = Some ?d" and hit: "cache_hit w' s'" by blast+
    have r: "api_data w' s' =
        (JObj ((''success'', JBool True) # (''cached'', JBool True) # spread ?d),
         s'\<lparr>clockReads := clockReads s' + 2\<rparr>)"
      using data_pipeline_hit[OF hit] ld by (auto dest: api_data_of_pipeline(1))
    have sh: "fst (api_data w' s')
        = JObj ((''success'', JBool True) # (''cached'', JBool True) # spread ?d)"
      by (simp add: r)
    have "getp (fst (api_data w' s')) ''success'' = JBool True"
      "getp (fst (api_data w' s')) ''cached'' = JBool True"
      by (simp_all add: sh response_fields del: getp_Cons)
    moreover have "\<forall>p \<in> set numeric_fields.
        field (fst (api_data w' s')) (fst p) (snd p) = JNum (Fin 0)"
      unfolding sh by (rule snapshot_response_zero[OF zero])
    moreover have "lastData (snd (api_data w' s')) = Some ?d" by (simp add: r ld)
    ultimately show ?thesis using sh by blast
  qed
  from stored shape flags zero_now zero later show ?thesis by blast
qed

text \<open>
  The example: a server that has just started, an upstream that accepts the login but knows
  no device and whose data endpoints cannot be reached.
\<close>

lemma no_device_clock [simp]: "clock no_device_world n = 1000000000000"
  by (simp add: no_device_world_def example_world_def fixed_clock_def)

lemma no_device_login:
  "ensureSession no_device_world init_state = (Inr (), no_device_session)"
  by code_simp

lemma no_device_storage:
  "withSessionRetry no_device_world (getStorageData no_device_world) no_device_session
     = (Inl (Error ''No device discovered. Try reconnecting.''), no_device_session)"
  by code_simp

lemma no_device_plant:
  "withSessionRetry no_device_world (getPlantDetail no_device_world) no_device_session
     = (Inl (Error ''fetch failed''), no_device_session\<lparr>clockReads := 2, requestCounter := 4\<rparr>)"
  by code_simp

text \<open>
  C10 on the example: \<^verbatim>\<open>getStorageData\<close> throws for want of a device, \<^verbatim>\<open>getPlantDetail\<close>
  throws on the network failure, the answer is a success with zero readings, and the next
  request is served the same zeros from the cache.
\<close>

theorem all_sources_fail_zero_snapshot_witness:
  "\<not> cache_hit no_device_world init_state \<and>
   ensureSession no_device_world (after_check init_state) = (Inr (), no_device_session) \<and>
   withSessionRetry no_device_world (getStorageData no_device_world) no_device_session
     = (Inl (Error ''No device discovered. Try reconnecting.''), no_device_session) \<and>
   withSessionRetry no_device_world (getPlantDetail no_device_world) no_device_session
     = (Inl (Error ''fetch failed''), no_device_session\<lparr>clockReads := 2, requestCounter := 4\<rparr>) \<and>
   getp (fst (api_data no_device_world init_state)) ''success'' = JBool True \<and>
   getp (fst (api_data no_device_world init_state)) ''cached'' = JBool False \<and>
   field (fst (api_data no_device_world init_state)) ''battery'' ''soc'' = JNum (Fin 0) \<and>
   field (fst (api_data no_device_world init_state)) ''inverter'' ''statusCode'' = JNum (Fin 0) \<and>
   cache_hit no_device_world (snd (api_data no_device_world init_state)) \<and>
   getp (fst (api_data no_device_world (snd (api_data no_device_world init_state)))) ''cached''
     = JBool True \<and>
   field (fst (api_data no_device_world (snd (api_data no_device_world init_state))))
     ''battery'' ''soc'' = JNum (Fin 0)"
proof -
  have miss: "\<not> cache_hit no_device_world init_state"
    by (simp add: cache_hit_def init_state_def)
  have ac: "after_check init_state = init_state"
    by (simp add: after_check_def init_state_def)
  have ens: "ensureSession no_device_world (after_check init_state) = (Inr (), no_device_session)"
    by (simp add: ac no_device_login)
  from all_sources_fail_zero_snapshot[OF miss ens no_device_storage no_device_plant]
  obtain d where
    stored: "lastData (snd (api_data no_device_world init_state)) = Some d"
    and shape: "fst (api_data no_device_world init_state)
                  = JObj ((''success'', JBool True) # (''cached'', JBool False) # spread d)"
    and flags: "getp (fst (api_data no_device_world init_state)) ''success'' = JBool True"
               "getp (fst (api_data no_device_world init_state)) ''cached'' = JBool False"
    and zero: "\<forall>p \<in> set numeric_fields.
                 field (fst (api_data no_device_world init_state)) (fst p) (snd p) = JNum (Fin 0)"
    and later: "\<forall>w' s'. lastData s' = Some d \<and> cache_hit w' s' \<longrightarrow>
              fst (api_data w' s') = JObj ((''success'', JBool True) # (''cached'', JBool True) # spread d) \<and>
              getp (fst (api_data w' s')) ''success'' = JBool True \<and>
              getp (fst (api_data w' s')) ''cached'' = JBool True \<and>
              (\<forall>p \<in> set numeric_fields. field (fst (api_data w' s')) (fst p) (snd p) = JNum (Fin 0)) \<and>
              lastData (snd (api_data w' s')) = Some d"
    by blast
  have mem: "(''battery'', ''soc'') \<in> set numeric_fields"
    "(''inverter'', ''statusCode'') \<in> set numeric_fields"
    by (simp_all add: numeric_fields_def)
  from zero mem have now: "field (fst (api_data no_device_world init_state)) ''battery'' ''soc'' = JNum (Fin 0)"
    "field (fst (api_data no_device_world init_state)) ''inverter'' ''statusCode'' = JNum (Fin 0)"
    by fastforce+
  have sr: "caught (withSessionRetry no_device_world (getStorageData no_device_world)) storage_fallback
              no_device_session
              = (Inr (storage_fallback (Error ''No device discovered. Try reconnecting.'')), no_device_session)"
    by (simp add: caught_def no_device_storage)
  have pd: "caught (withSessionRetry no_device_world (getPlantDetail no_device_world)) plant_fallback
              no_device_session
              = (Inr (plant_fallback (Error ''fetch failed'')),
                 no_device_session\<lparr>clockReads := 2, requestCounter := 4\<rparr>)"
    by (simp add: caught_def no_device_plant)
  from api_data_of_pipeline(1)[OF data_pipeline_miss_ok[OF miss ens sr pd]]
  have lf: "lastFetch (snd (api_data no_device_world init_state)) = 1000000000000"
    and td: "\<exists>x. lastData (snd (api_data no_device_world init_state)) = Some x \<and> truthy x"
    by (simp_all add: truthy_dashData)
  have hit: "cache_hit no_device_world (snd (api_data no_device_world init_state))"
    using td by (auto simp: cache_hit_def lf DATA_CACHE_TTL_def)
  from later stored hit
  have again: "getp (fst (api_data no_device_world (snd (api_data no_device_world init_state)))) ''cached''
                 = JBool True"
    "\<forall>p \<in> set numeric_fields.
        field (fst (api_data no_device_world (snd (api_data no_device_world init_state))))
          (fst p) (snd p) = JNum (Fin 0)"
    by blast+
  from again(2) mem(1)
  have soc: "field (fst (api_data no_device_world (snd (api_data no_device_world init_state))))
     ''battery'' ''soc'' = JNum (Fin 0)"
    by fastforce
  from miss ens no_device_storage no_device_plant flags now hit again(1) soc
  show ?thesis by blast
qed

section \<open>One source fails\<close>








text \<open>The older server has no \<^verbatim>\<open>try\<close> around the sources: the error of one is the error of
  \<^verbatim>\<open>getStorageData\<close>.\<close>

lemma getStorageData_legacy_aborts:
  assumes "truthy (deviceSn s1)"
    and "source_legacy w (StorageInfo (deviceSn s1)) ''StorageDetail'' s1 = (Inr detail, s2)"
    and "source_legacy w (EnergyOverview (plantId s2) (deviceSn s2)) ''EnergyOverview'' s2 = (Inl e, s3)"
  shows "getStorageData_legacy w s1 = (Inl e, s3)"
  by (simp add: getStorageData_legacy_def bind_def reading_def assms)

lemma fixed_clock_world [simp]: "clock (example_world u fixed_clock) n = 1000000000000"
  by (simp add: example_world_def fixed_clock_def)














section \<open>The tolerant parse: properties\<close>

lemma lastIndexOf_absent: "(lastIndexOf t c = - 1) = (c \<notin> set t)"
proof (cases "c \<in> set t")
  case True
  then have "dropWhile (\<lambda>x. x \<noteq> c) (rev t) \<noteq> []"
    by (simp add: dropWhile_eq_Nil_conv)
  moreover have "length (takeWhile (\<lambda>x. x \<noteq> c) (rev t)) + length (dropWhile (\<lambda>x. x \<noteq> c) (rev t))
      = length t"
    by (metis length_append length_rev takeWhile_dropWhile_id)
  ultimately have "length (takeWhile (\<lambda>x. x \<noteq> c) (rev t)) < length t"
    by (cases "dropWhile (\<lambda>x. x \<noteq> c) (rev t)") auto
  with True show ?thesis by (simp add: lastIndexOf_def)
next
  case False
  then show ?thesis by (simp add: lastIndexOf_def)
qed

lemma first_parsed_append:
  "first_parsed w (xs @ ys) =
     (case first_parsed w xs of Some v \<Rightarrow> Some v | None \<Rightarrow> first_parsed w ys)"
  by (induction xs) (simp_all split: option.splits)

lemma try_endings_first_parsed:
  "try_endings w current es = first_parsed w (map (\<lambda>e. current @ e) es)"
  by (induction es) (simp_all split: option.splits)

text \<open>The loop of \<^verbatim>\<open>safeJson\<close> finds the first candidate of the specification that parses.\<close>

lemma salvage_first_parsed:
  "salvage w n t =
     first_parsed w (concat (map (\<lambda>current. map (\<lambda>e. current @ e) endings) (truncations n t)))"
proof (induction n arbitrary: t)
  case 0
  show ?case by simp
next
  case (Suc n)
  show ?case
  proof (cases "CHR '','' \<in> set t")
    case False
    then show ?thesis by (simp add: lastIndexOf_absent Let_def)
  next
    case True
    then have "lastIndexOf t CHR '','' \<noteq> - 1" by (simp add: lastIndexOf_absent)
    with True show ?thesis
      by (simp add: Let_def Suc.IH first_parsed_append try_endings_first_parsed
          split: option.splits)
  qed
qed

text \<open>
  Claim C1, with the test the code makes. For a body that \<^verbatim>\<open>JSON.parse\<close> rejects: if the
  body, white space at its ends removed, starts with \<^verbatim>\<open><\<close>, \<^verbatim>\<open>safeJson\<close> throws the
  \<^verbatim>\<open>session_expired\<close> error, on which \<^verbatim>\<open>withSessionRetry\<close> logs in again; otherwise it
  returns the first value parsed among the candidates (the texts left by one to ten
  truncations at the last comma, each with the endings \<^verbatim>\<open>}\<close>, \<^verbatim>\<open>}}\<close>, \<^verbatim>\<open>}}}\<close>, \<^verbatim>\<open>}}}}\<close>,
  \<^verbatim>\<open>]}\<close>, \<^verbatim>\<open>]}}\<close> in this order), and \<^verbatim>\<open>{}\<close> when none parses.
\<close>

theorem safeJson_tolerant:
  assumes "body res = Inr txt" and "JSON_parse w txt = None"
  shows "(starts_with (trim txt) ''<'' \<longrightarrow>
            safeJson w res label = Inl (Error (''session_expired: '' @ label @ '' returned HTML''))) \<and>
         (\<not> starts_with (trim txt) ''<'' \<longrightarrow>
            safeJson w res label =
              (case first_parsed w (salvage_candidates txt) of
                 Some v \<Rightarrow> Inr v
               | None \<Rightarrow> Inr (JObj []))) \<and>
         retry_trigger (Error (''session_expired: '' @ label @ '' returned HTML''))"
proof -
  have "retry_trigger (Error (''session_expired: '' @ label @ '' returned HTML''))"
    by (simp add: retry_trigger_def starts_with_def)
  with assms show ?thesis
    by (simp add: safeJson_def salvage_first_parsed salvage_candidates_def split: option.splits)
qed

text \<open>The older server throws on every body that does not parse.\<close>

lemma safeJson_legacy_throws:
  assumes "body res = Inr txt" and "JSON_parse w txt = None"
  shows "safeJson_legacy w res label
           = Inl (Error (label @ '' returned non-JSON: '' @ [CHR 0x22] @ take 80 txt @ [CHR 0x22]))"
  using assms by (simp add: safeJson_legacy_def)

lemma example_bodies:
  "JSON_parse ok_world truncated_body = None"
  "JSON_parse ok_world ''<html>Sign in</html>'' = None"
  "JSON_parse ok_world ''Bad Gateway'' = None"
  "JSON_parse ok_world padded_page = None"
  by code_simp+

lemma example_tests:
  "\<not> starts_with (trim truncated_body) ''<''"
  "starts_with (trim ''<html>Sign in</html>'') ''<''"
  "\<not> starts_with (trim ''Bad Gateway'') ''<''"
  "\<not> starts_with padded_page ''<''"
  by code_simp+

lemma example_salvage:
  "first_parsed ok_world (salvage_candidates truncated_body) = Some (JObj [(''a'', JNum (Fin 1))])"
  "first_parsed ok_world (salvage_candidates ''Bad Gateway'') = None"
  "first_parsed ok_world (salvage_candidates padded_page) = None"
  by code_simp+

lemma padded_page_result:
  "safeJson ok_world (ok_response [] padded_page) ''API''
     = Inl (Error ''session_expired: API returned HTML'')"
  by code_simp

lemma ok_response_body: "body (ok_response c txt) = Inr txt"
  by (simp add: ok_response_def)

text \<open>
  C1 on three bodies: the body cut short is salvaged to \<^verbatim>\<open>{"a":1}\<close>; the HTML page throws;
  the line of text, which has no comma, gives \<^verbatim>\<open>{}\<close>.
\<close>

theorem safeJson_tolerant_witness:
  "JSON_parse ok_world truncated_body = None \<and>
   safeJson ok_world (ok_response [] truncated_body) ''API'' = Inr (JObj [(''a'', JNum (Fin 1))]) \<and>
   JSON_parse ok_world ''<html>Sign in</html>'' = None \<and>
   safeJson ok_world (ok_response [] ''<html>Sign in</html>'') ''API''
     = Inl (Error ''session_expired: API returned HTML'') \<and>
   JSON_parse ok_world ''Bad Gateway'' = None \<and>
   safeJson ok_world (ok_response [] ''Bad Gateway'') ''API'' = Inr (JObj [])"
proof -
  note b = ok_response_body[of "[]"]
  from safeJson_tolerant[OF b example_bodies(1), of "''API''"] example_tests(1) example_salvage(1)
  have one: "safeJson ok_world (ok_response [] truncated_body) ''API''
               = Inr (JObj [(''a'', JNum (Fin 1))])"
    by simp
  from safeJson_tolerant[OF b example_bodies(2), of "''API''"] example_tests(2)
  have two: "safeJson ok_world (ok_response [] ''<html>Sign in</html>'') ''API''
               = Inl (Error ''session_expired: API returned HTML'')"
    by simp
  from safeJson_tolerant[OF b example_bodies(3), of "''API''"] example_tests(3) example_salvage(2)
  have three: "safeJson ok_world (ok_response [] ''Bad Gateway'') ''API'' = Inr (JObj [])"
    by simp
  from one two three example_bodies show ?thesis by blast
qed

text \<open>
  Against C1 as stated: a page that begins with a line feed does not start with \<^verbatim>\<open><\<close> and
  no salvage candidate of it parses, so the body should give \<^verbatim>\<open>{}\<close>; \<^verbatim>\<open>safeJson\<close> trims
  the body before the test and throws \<^verbatim>\<open>session_expired\<close>.
\<close>

theorem safeJson_padded_page:
  "body (ok_response [] padded_page) = Inr padded_page \<and>
   JSON_parse ok_world padded_page = None \<and>
   \<not> starts_with padded_page ''<'' \<and>
   first_parsed ok_world (salvage_candidates padded_page) = None \<and>
   safeJson ok_world (ok_response [] padded_page) ''API''
     = Inl (Error ''session_expired: API returned HTML'')"
  using example_bodies(4) example_tests(4) example_salvage(3) padded_page_result
  by (simp add: ok_response_def)

end
